theory Spec2Isabelle
  imports Main "HOL-Library.Word"
begin

unbundle bit_operations_syntax

section \<open>Machine types and register access\<close>

text \<open>
  The NPCM8xx is an arm64 SoC, so the kernel's \<^verbatim>\<open>unsigned long\<close> is 64 bits wide
  (LP64); \<^verbatim>\<open>unsigned int\<close> and \<^verbatim>\<open>u32\<close> are 32 bits, \<^verbatim>\<open>u8\<close> is 8 bits.
\<close>

type_synonym u8 = "8 word"
type_synonym u32 = "32 word"
type_synonym u64 = "64 word"
type_synonym ulong = "64 word"

text \<open>
  Memory-mapped registers are owned by the hardware: two reads of one address may see
  different words. The state is therefore the register image as a function of the number
  of reads issued so far, together with that number. \<^verbatim>\<open>readl_relaxed\<close> returns the word
  the image holds at the time of the read and counts the read.
\<close>

record mmio =
  regs :: "nat \<Rightarrow> nat \<Rightarrow> u32"
  reads :: nat

definition readl_relaxed :: "nat \<Rightarrow> mmio \<Rightarrow> u32 \<times> mmio" where
  "readl_relaxed addr s = (regs s (reads s) addr, s\<lparr>reads := Suc (reads s)\<rparr>)"

text \<open>A register window whose contents never change, before any read.\<close>

definition frozen :: "(nat \<Rightarrow> u32) \<Rightarrow> mmio" where
  "frozen f = \<lparr>regs = (\<lambda>t. f), reads = 0\<rparr>"

section \<open>Bit-field macros\<close>

text \<open>
  Modelled from the spec: the macros \<^verbatim>\<open>BIT\<close>, \<^verbatim>\<open>GENMASK\<close> (linux/bits.h) and
  \<^verbatim>\<open>FIELD_GET\<close> (linux/bitfield.h) are not part of the driver file; the spec's fixed
  bit layout of the control word says what they denote. \<^verbatim>\<open>BIT(n)\<close> is
  the \<^verbatim>\<open>unsigned long\<close> with only bit \<open>n\<close> set, \<^verbatim>\<open>GENMASK(h, l)\<close> the
  \<^verbatim>\<open>unsigned long\<close> with exactly the bits \<open>l\<close> to \<open>h\<close> set, and
  \<^verbatim>\<open>FIELD_GET(mask, reg)\<close> is \<^verbatim>\<open>(reg & mask) >> __bf_shf(mask)\<close> in the type of the
  mask, where \<^verbatim>\<open>__bf_shf\<close> is the position of the lowest set bit of the mask.
\<close>

definition BIT :: "nat \<Rightarrow> ulong" where
  "BIT n = push_bit n 1"

definition GENMASK :: "nat \<Rightarrow> nat \<Rightarrow> ulong" where
  "GENMASK h l = push_bit l (mask (Suc h - l))"

definition bf_shf :: "ulong \<Rightarrow> nat" where
  "bf_shf m = length (takeWhile (\<lambda>n. \<not> bit m n) [0..<64])"

definition FIELD_GET :: "ulong \<Rightarrow> u32 \<Rightarrow> ulong" where
  "FIELD_GET m reg = drop_bit (bf_shf m) (ucast reg AND m)"

text \<open>
  Modelled from the spec: the macro \<^verbatim>\<open>do_div(n, base)\<close> (asm-generic/div64.h) is not part
  of the driver file. It converts \<open>base\<close> to \<^verbatim>\<open>uint32_t\<close> and replaces the 64-bit \<open>n\<close> by
  the quotient. The C division has no defined result for a zero divisor; the model makes
  that case the fault \<open>DivideByZero\<close>.
\<close>

datatype clk_error =
    ZeroParentRate
  | UnknownMuxSelection
  | InvalidDivisor
  | InvalidConfiguration
  | RecursionLimit
  | DivideByZero

definition do_div :: "u64 \<Rightarrow> ulong \<Rightarrow> clk_error + u64" where
  "do_div n base =
     (let b = (ucast base :: u32)
      in if b = 0 then Inl DivideByZero else Inr (n div ucast b))"

section \<open>The PLL\<close>

definition NPCM8XX_REF_CLK :: ulong where
  "NPCM8XX_REF_CLK = 25000000"

record npcm8xx_clk_pll =
  pllcon :: nat
  flags :: u8

definition PLLCON_LOKI :: ulong where "PLLCON_LOKI = BIT 31"
definition PLLCON_LOKS :: ulong where "PLLCON_LOKS = BIT 30"
definition PLLCON_FBDV :: ulong where "PLLCON_FBDV = GENMASK 27 16"
definition PLLCON_OTDV2 :: ulong where "PLLCON_OTDV2 = GENMASK 15 13"
definition PLLCON_PWDEN :: ulong where "PLLCON_PWDEN = BIT 12"
definition PLLCON_OTDV1 :: ulong where "PLLCON_OTDV1 = GENMASK 10 8"
definition PLLCON_INDV :: ulong where "PLLCON_INDV = GENMASK 5 0"

definition npcm8xx_clk_pll_recalc_rate ::
    "npcm8xx_clk_pll \<Rightarrow> ulong \<Rightarrow> mmio \<Rightarrow> (clk_error + ulong) \<times> mmio" where
  "npcm8xx_clk_pll_recalc_rate pll parent_rate s =
     (if parent_rate = 0 then (Inr 0, s)
      else
        let (val, s') = readl_relaxed (pllcon pll) s;
            indv = FIELD_GET PLLCON_INDV val;
            fbdv = FIELD_GET PLLCON_FBDV val;
            otdv1 = FIELD_GET PLLCON_OTDV1 val;
            otdv2 = FIELD_GET PLLCON_OTDV2 val;
            ret = (ucast parent_rate :: u64) * fbdv
        in (do_div ret (indv * otdv1 * otdv2), s'))"

text \<open>The value of the bits \<open>hi:lo\<close> of a 32-bit register word, as a number.\<close>

definition bits :: "nat \<Rightarrow> nat \<Rightarrow> u32 \<Rightarrow> nat" where
  "bits hi lo w = (unat w div 2 ^ lo) mod 2 ^ (Suc hi - lo)"

section \<open>Static clock tables\<close>

text \<open>Register offsets within the clock controller's window (those the tables use).\<close>

definition NPCM8XX_CLKSEL :: u32 where "NPCM8XX_CLKSEL = 0x04"
definition NPCM8XX_CLKDIV1 :: u32 where "NPCM8XX_CLKDIV1 = 0x08"
definition NPCM8XX_CLKDIV2 :: u32 where "NPCM8XX_CLKDIV2 = 0x2C"
definition NPCM8XX_CLKDIV3 :: u32 where "NPCM8XX_CLKDIV3 = 0x58"
definition NPCM8XX_CLKDIV4 :: u32 where "NPCM8XX_CLKDIV4 = 0x7C"
definition NPCM8XX_PLLCON0 :: u32 where "NPCM8XX_PLLCON0 = 0x0C"
definition NPCM8XX_PLLCON1 :: u32 where "NPCM8XX_PLLCON1 = 0x10"
definition NPCM8XX_PLLCON2 :: u32 where "NPCM8XX_PLLCON2 = 0x54"
definition NPCM8XX_PLLCONG :: u32 where "NPCM8XX_PLLCONG = 0x60"
definition NPCM8XX_THRTL_CNT :: u32 where "NPCM8XX_THRTL_CNT = 0xC0"

text \<open>
  The framework's clock flags and divider flags are bit masks whose values are declared
  outside the driver file; a flag word is modelled as the set of flags it has set, \<open>0\<close> as
  the empty set and \<^verbatim>\<open>A | B\<close> as \<open>{A, B}\<close>. The export indices
  (\<^verbatim>\<open>onecell_idx\<close>) are the symbolic constants of the device-tree binding header,
  \<open>None\<close> standing for \<open>-1\<close>.
\<close>

datatype clk_flag = CLK_IS_CRITICAL

datatype clk_divider_flag = CLK_DIVIDER_READ_ONLY | CLK_DIVIDER_POWER_OF_TWO

datatype npcm845_clk =
    NPCM8XX_CLK_REFCLK | NPCM8XX_CLK_CPU | NPCM8XX_CLK_GFX_PIXEL | NPCM8XX_CLK_ADC
  | NPCM8XX_CLK_AHB | NPCM8XX_CLK_PRE_ADC | NPCM8XX_CLK_UART | NPCM8XX_CLK_MMC
  | NPCM8XX_CLK_SPI3 | NPCM8XX_CLK_PCI | NPCM8XX_CLK_APB4 | NPCM8XX_CLK_APB3
  | NPCM8XX_CLK_APB2 | NPCM8XX_CLK_APB1 | NPCM8XX_CLK_APB5 | NPCM8XX_CLK_CLKOUT
  | NPCM8XX_CLK_GFX | NPCM8XX_CLK_SU | NPCM8XX_CLK_SU48 | NPCM8XX_CLK_SDHC
  | NPCM8XX_CLK_SPI1 | NPCM8XX_CLK_UART2 | NPCM8XX_CLK_SPI0 | NPCM8XX_CLK_SPIX
  | NPCM8XX_CLK_RG | NPCM8XX_CLK_RCP | NPCM8XX_CLK_TH

text \<open>
  The three descriptor structs, with the fields in the order of the C initialisers. The
  field names carry the struct's prefix, since the structs share field names.
\<close>

datatype npcm8xx_clk_mux_data = Mux_data
  (mux_shift: u8) (mux_mask: u8) (mux_table: "u32 list") (mux_name: string)
  (mux_parent_names: "string list") (mux_num_parents: u8) (mux_flags: "clk_flag set")
  (mux_onecell_idx: "npcm845_clk option")

datatype npcm8xx_clk_div_data = Div_data
  (div_reg: u32) (div_shift: u8) (div_width: u8) (div_name: string)
  (div_parent_name: string) (div_clk_divider_flags: "clk_divider_flag set")
  (div_flags: "clk_flag set") (div_onecell_idx: "npcm845_clk option")

datatype npcm8xx_clk_pll_data = Pll_data
  (pll_reg: u32) (pll_name: string) (pll_parent_name: string) (pll_flags: "clk_flag set")
  (pll_onecell_idx: "npcm845_clk option")

abbreviation NPCM8XX_CLK_S_REFCLK :: string where "NPCM8XX_CLK_S_REFCLK \<equiv> ''refclk''"
abbreviation NPCM8XX_CLK_S_SYSBYPCK :: string where "NPCM8XX_CLK_S_SYSBYPCK \<equiv> ''sysbypck''"
abbreviation NPCM8XX_CLK_S_MCBYPCK :: string where "NPCM8XX_CLK_S_MCBYPCK \<equiv> ''mcbypck''"
abbreviation NPCM8XX_CLK_S_PLL0 :: string where "NPCM8XX_CLK_S_PLL0 \<equiv> ''pll0''"
abbreviation NPCM8XX_CLK_S_PLL1 :: string where "NPCM8XX_CLK_S_PLL1 \<equiv> ''pll1''"
abbreviation NPCM8XX_CLK_S_PLL1_DIV2 :: string where "NPCM8XX_CLK_S_PLL1_DIV2 \<equiv> ''pll1_div2''"
abbreviation NPCM8XX_CLK_S_PLL2 :: string where "NPCM8XX_CLK_S_PLL2 \<equiv> ''pll2''"
abbreviation NPCM8XX_CLK_S_PLL_GFX :: string where "NPCM8XX_CLK_S_PLL_GFX \<equiv> ''pll_gfx''"
abbreviation NPCM8XX_CLK_S_PLL2_DIV2 :: string where "NPCM8XX_CLK_S_PLL2_DIV2 \<equiv> ''pll2_div2''"
abbreviation NPCM8XX_CLK_S_PIX_MUX :: string where "NPCM8XX_CLK_S_PIX_MUX \<equiv> ''gfx_pixel''"
abbreviation NPCM8XX_CLK_S_MC_MUX :: string where "NPCM8XX_CLK_S_MC_MUX \<equiv> ''mc_phy''"
abbreviation NPCM8XX_CLK_S_CPU_MUX :: string where "NPCM8XX_CLK_S_CPU_MUX \<equiv> ''cpu''"
abbreviation NPCM8XX_CLK_S_MC :: string where "NPCM8XX_CLK_S_MC \<equiv> ''mc''"
abbreviation NPCM8XX_CLK_S_AXI :: string where "NPCM8XX_CLK_S_AXI \<equiv> ''axi''"
abbreviation NPCM8XX_CLK_S_AHB :: string where "NPCM8XX_CLK_S_AHB \<equiv> ''ahb''"
abbreviation NPCM8XX_CLK_S_CLKOUT_MUX :: string where "NPCM8XX_CLK_S_CLKOUT_MUX \<equiv> ''clkout_mux''"
abbreviation NPCM8XX_CLK_S_UART_MUX :: string where "NPCM8XX_CLK_S_UART_MUX \<equiv> ''uart_mux''"
abbreviation NPCM8XX_CLK_S_SD_MUX :: string where "NPCM8XX_CLK_S_SD_MUX \<equiv> ''sd_mux''"
abbreviation NPCM8XX_CLK_S_GFXM_MUX :: string where "NPCM8XX_CLK_S_GFXM_MUX \<equiv> ''gfxm_mux''"
abbreviation NPCM8XX_CLK_S_SU_MUX :: string where "NPCM8XX_CLK_S_SU_MUX \<equiv> ''serial_usb_mux''"
abbreviation NPCM8XX_CLK_S_DVC_MUX :: string where "NPCM8XX_CLK_S_DVC_MUX \<equiv> ''dvc_mux''"
abbreviation NPCM8XX_CLK_S_GFX_MUX :: string where "NPCM8XX_CLK_S_GFX_MUX \<equiv> ''gfx_mux''"
abbreviation NPCM8XX_CLK_S_ADC_MUX :: string where "NPCM8XX_CLK_S_ADC_MUX \<equiv> ''adc_mux''"
abbreviation NPCM8XX_CLK_S_SPI0 :: string where "NPCM8XX_CLK_S_SPI0 \<equiv> ''spi0''"
abbreviation NPCM8XX_CLK_S_SPI1 :: string where "NPCM8XX_CLK_S_SPI1 \<equiv> ''spi1''"
abbreviation NPCM8XX_CLK_S_SPI3 :: string where "NPCM8XX_CLK_S_SPI3 \<equiv> ''spi3''"
abbreviation NPCM8XX_CLK_S_SPIX :: string where "NPCM8XX_CLK_S_SPIX \<equiv> ''spix''"
abbreviation NPCM8XX_CLK_S_APB1 :: string where "NPCM8XX_CLK_S_APB1 \<equiv> ''apb1''"
abbreviation NPCM8XX_CLK_S_APB2 :: string where "NPCM8XX_CLK_S_APB2 \<equiv> ''apb2''"
abbreviation NPCM8XX_CLK_S_APB3 :: string where "NPCM8XX_CLK_S_APB3 \<equiv> ''apb3''"
abbreviation NPCM8XX_CLK_S_APB4 :: string where "NPCM8XX_CLK_S_APB4 \<equiv> ''apb4''"
abbreviation NPCM8XX_CLK_S_APB5 :: string where "NPCM8XX_CLK_S_APB5 \<equiv> ''apb5''"
abbreviation NPCM8XX_CLK_S_APB19 :: string where "NPCM8XX_CLK_S_APB19 \<equiv> ''apb19''"
abbreviation NPCM8XX_CLK_S_TOCK :: string where "NPCM8XX_CLK_S_TOCK \<equiv> ''tock''"
abbreviation NPCM8XX_CLK_S_CLKOUT :: string where "NPCM8XX_CLK_S_CLKOUT \<equiv> ''clkout''"
abbreviation NPCM8XX_CLK_S_PRE_ADC :: string where "NPCM8XX_CLK_S_PRE_ADC \<equiv> ''pre adc''"
abbreviation NPCM8XX_CLK_S_UART :: string where "NPCM8XX_CLK_S_UART \<equiv> ''uart''"
abbreviation NPCM8XX_CLK_S_UART2 :: string where "NPCM8XX_CLK_S_UART2 \<equiv> ''uart2''"
abbreviation NPCM8XX_CLK_S_TIMER :: string where "NPCM8XX_CLK_S_TIMER \<equiv> ''timer''"
abbreviation NPCM8XX_CLK_S_MMC :: string where "NPCM8XX_CLK_S_MMC \<equiv> ''mmc''"
abbreviation NPCM8XX_CLK_S_SDHC :: string where "NPCM8XX_CLK_S_SDHC \<equiv> ''sdhc''"
abbreviation NPCM8XX_CLK_S_ADC :: string where "NPCM8XX_CLK_S_ADC \<equiv> ''adc''"
abbreviation NPCM8XX_CLK_S_GFX :: string where "NPCM8XX_CLK_S_GFX \<equiv> ''gfx0_gfx1_mem''"
abbreviation NPCM8XX_CLK_S_USBIF :: string where "NPCM8XX_CLK_S_USBIF \<equiv> ''serial_usbif''"
abbreviation NPCM8XX_CLK_S_USB_HOST :: string where "NPCM8XX_CLK_S_USB_HOST \<equiv> ''usb_host''"
abbreviation NPCM8XX_CLK_S_USB_BRIDGE :: string where "NPCM8XX_CLK_S_USB_BRIDGE \<equiv> ''usb_bridge''"
abbreviation NPCM8XX_CLK_S_PCI :: string where "NPCM8XX_CLK_S_PCI \<equiv> ''pci''"
abbreviation NPCM8XX_CLK_S_TH :: string where "NPCM8XX_CLK_S_TH \<equiv> ''th''"
abbreviation NPCM8XX_CLK_S_ATB :: string where "NPCM8XX_CLK_S_ATB \<equiv> ''atb''"
abbreviation NPCM8XX_CLK_S_PRE_CLK :: string where "NPCM8XX_CLK_S_PRE_CLK \<equiv> ''pre_clk''"
abbreviation NPCM8XX_CLK_S_RG_MUX :: string where "NPCM8XX_CLK_S_RG_MUX \<equiv> ''rg_mux''"
abbreviation NPCM8XX_CLK_S_RCP_MUX :: string where "NPCM8XX_CLK_S_RCP_MUX \<equiv> ''rcp_mux''"
abbreviation NPCM8XX_CLK_S_RG :: string where "NPCM8XX_CLK_S_RG \<equiv> ''rg''"
abbreviation NPCM8XX_CLK_S_RCP :: string where "NPCM8XX_CLK_S_RCP \<equiv> ''rcp''"

definition pll_mux_table :: "u32 list" where
  "pll_mux_table = [0, 1, 2, 3]"
definition pll_mux_parents :: "string list" where
  "pll_mux_parents =
     [NPCM8XX_CLK_S_PLL0, NPCM8XX_CLK_S_PLL1, NPCM8XX_CLK_S_REFCLK, NPCM8XX_CLK_S_PLL2_DIV2]"

definition cpuck_mux_table :: "u32 list" where
  "cpuck_mux_table = [0, 1, 2, 3, 7]"
definition cpuck_mux_parents :: "string list" where
  "cpuck_mux_parents =
     [NPCM8XX_CLK_S_PLL0, NPCM8XX_CLK_S_PLL1, NPCM8XX_CLK_S_REFCLK, NPCM8XX_CLK_S_SYSBYPCK,
      NPCM8XX_CLK_S_PLL2]"

definition pixcksel_mux_table :: "u32 list" where
  "pixcksel_mux_table = [0, 2]"
definition pixcksel_mux_parents :: "string list" where
  "pixcksel_mux_parents = [NPCM8XX_CLK_S_PLL_GFX, NPCM8XX_CLK_S_REFCLK]"

definition sucksel_mux_table :: "u32 list" where
  "sucksel_mux_table = [2, 3]"
definition sucksel_mux_parents :: "string list" where
  "sucksel_mux_parents = [NPCM8XX_CLK_S_REFCLK, NPCM8XX_CLK_S_PLL2_DIV2]"

definition mccksel_mux_table :: "u32 list" where
  "mccksel_mux_table = [0, 2, 3]"
definition mccksel_mux_parents :: "string list" where
  "mccksel_mux_parents =
     [NPCM8XX_CLK_S_PLL1_DIV2, NPCM8XX_CLK_S_REFCLK, NPCM8XX_CLK_S_MCBYPCK]"

definition clkoutsel_mux_table :: "u32 list" where
  "clkoutsel_mux_table = [0, 1, 2, 3, 4]"
definition clkoutsel_mux_parents :: "string list" where
  "clkoutsel_mux_parents =
     [NPCM8XX_CLK_S_PLL0, NPCM8XX_CLK_S_PLL1, NPCM8XX_CLK_S_REFCLK, NPCM8XX_CLK_S_PLL_GFX,
      NPCM8XX_CLK_S_PLL2_DIV2]"

definition gfxmsel_mux_table :: "u32 list" where
  "gfxmsel_mux_table = [2, 3]"
definition gfxmsel_mux_parents :: "string list" where
  "gfxmsel_mux_parents = [NPCM8XX_CLK_S_REFCLK, NPCM8XX_CLK_S_PLL2_DIV2]"

definition dvcssel_mux_table :: "u32 list" where
  "dvcssel_mux_table = [2, 3]"
definition dvcssel_mux_parents :: "string list" where
  "dvcssel_mux_parents = [NPCM8XX_CLK_S_REFCLK, NPCM8XX_CLK_S_PLL2]"

definition npcm8xx_plls :: "npcm8xx_clk_pll_data list" where
  "npcm8xx_plls =
    [Pll_data NPCM8XX_PLLCON0 NPCM8XX_CLK_S_PLL0 NPCM8XX_CLK_S_REFCLK {} None,
     Pll_data NPCM8XX_PLLCON1 NPCM8XX_CLK_S_PLL1 NPCM8XX_CLK_S_REFCLK {} None,
     Pll_data NPCM8XX_PLLCON2 NPCM8XX_CLK_S_PLL2 NPCM8XX_CLK_S_REFCLK {} None,
     Pll_data NPCM8XX_PLLCONG NPCM8XX_CLK_S_PLL_GFX NPCM8XX_CLK_S_REFCLK {} None]"

text \<open>\<^verbatim>\<open>GENMASK(1, 0)\<close> and \<^verbatim>\<open>GENMASK(2, 0)\<close> are stored in the \<^verbatim>\<open>u8\<close> field \<open>mask\<close>.\<close>

definition npcm8xx_muxes :: "npcm8xx_clk_mux_data list" where
  "npcm8xx_muxes =
    [Mux_data 0 (ucast (GENMASK 1 0)) cpuck_mux_table NPCM8XX_CLK_S_CPU_MUX
       cpuck_mux_parents (of_nat (length cpuck_mux_parents)) {CLK_IS_CRITICAL}
       (Some NPCM8XX_CLK_CPU),
     Mux_data 4 (ucast (GENMASK 1 0)) pixcksel_mux_table NPCM8XX_CLK_S_PIX_MUX
       pixcksel_mux_parents (of_nat (length pixcksel_mux_parents)) {}
       (Some NPCM8XX_CLK_GFX_PIXEL),
     Mux_data 6 (ucast (GENMASK 1 0)) pll_mux_table NPCM8XX_CLK_S_SD_MUX
       pll_mux_parents (of_nat (length pll_mux_parents)) {} None,
     Mux_data 8 (ucast (GENMASK 1 0)) pll_mux_table NPCM8XX_CLK_S_UART_MUX
       pll_mux_parents (of_nat (length pll_mux_parents)) {} None,
     Mux_data 10 (ucast (GENMASK 1 0)) sucksel_mux_table NPCM8XX_CLK_S_SU_MUX
       sucksel_mux_parents (of_nat (length sucksel_mux_parents)) {} None,
     Mux_data 12 (ucast (GENMASK 1 0)) mccksel_mux_table NPCM8XX_CLK_S_MC_MUX
       mccksel_mux_parents (of_nat (length mccksel_mux_parents)) {} None,
     Mux_data 14 (ucast (GENMASK 1 0)) pll_mux_table NPCM8XX_CLK_S_ADC_MUX
       pll_mux_parents (of_nat (length pll_mux_parents)) {} None,
     Mux_data 16 (ucast (GENMASK 1 0)) pll_mux_table NPCM8XX_CLK_S_GFX_MUX
       pll_mux_parents (of_nat (length pll_mux_parents)) {} None,
     Mux_data 18 (ucast (GENMASK 2 0)) clkoutsel_mux_table NPCM8XX_CLK_S_CLKOUT_MUX
       clkoutsel_mux_parents (of_nat (length clkoutsel_mux_parents)) {} None,
     Mux_data 21 (ucast (GENMASK 1 0)) gfxmsel_mux_table NPCM8XX_CLK_S_GFXM_MUX
       gfxmsel_mux_parents (of_nat (length gfxmsel_mux_parents)) {} None,
     Mux_data 23 (ucast (GENMASK 1 0)) dvcssel_mux_table NPCM8XX_CLK_S_DVC_MUX
       dvcssel_mux_parents (of_nat (length dvcssel_mux_parents)) {} None,
     Mux_data 25 (ucast (GENMASK 1 0)) pll_mux_table NPCM8XX_CLK_S_RG_MUX
       pll_mux_parents (of_nat (length pll_mux_parents)) {} None,
     Mux_data 27 (ucast (GENMASK 1 0)) pll_mux_table NPCM8XX_CLK_S_RCP_MUX
       pll_mux_parents (of_nat (length pll_mux_parents)) {} None]"

definition npcm8xx_divs :: "npcm8xx_clk_div_data list" where
  "npcm8xx_divs =
    [Div_data NPCM8XX_CLKDIV1 28 3 NPCM8XX_CLK_S_ADC NPCM8XX_CLK_S_PRE_ADC
       {CLK_DIVIDER_READ_ONLY, CLK_DIVIDER_POWER_OF_TWO} {} (Some NPCM8XX_CLK_ADC),
     Div_data NPCM8XX_CLKDIV1 26 2 NPCM8XX_CLK_S_AHB NPCM8XX_CLK_S_PRE_CLK
       {CLK_DIVIDER_READ_ONLY} {CLK_IS_CRITICAL} (Some NPCM8XX_CLK_AHB),
     Div_data NPCM8XX_CLKDIV1 21 5 NPCM8XX_CLK_S_PRE_ADC NPCM8XX_CLK_S_ADC_MUX
       {CLK_DIVIDER_READ_ONLY} {} (Some NPCM8XX_CLK_PRE_ADC),
     Div_data NPCM8XX_CLKDIV1 16 5 NPCM8XX_CLK_S_UART NPCM8XX_CLK_S_UART_MUX
       {CLK_DIVIDER_READ_ONLY} {} (Some NPCM8XX_CLK_UART),
     Div_data NPCM8XX_CLKDIV1 11 5 NPCM8XX_CLK_S_MMC NPCM8XX_CLK_S_SD_MUX
       {CLK_DIVIDER_READ_ONLY} {} (Some NPCM8XX_CLK_MMC),
     Div_data NPCM8XX_CLKDIV1 6 5 NPCM8XX_CLK_S_SPI3 NPCM8XX_CLK_S_AHB
       {} {} (Some NPCM8XX_CLK_SPI3),
     Div_data NPCM8XX_CLKDIV1 2 4 NPCM8XX_CLK_S_PCI NPCM8XX_CLK_S_GFX_MUX
       {CLK_DIVIDER_READ_ONLY} {} (Some NPCM8XX_CLK_PCI),

     Div_data NPCM8XX_CLKDIV2 30 2 NPCM8XX_CLK_S_APB4 NPCM8XX_CLK_S_AHB
       {CLK_DIVIDER_READ_ONLY, CLK_DIVIDER_POWER_OF_TWO} {} (Some NPCM8XX_CLK_APB4),
     Div_data NPCM8XX_CLKDIV2 28 2 NPCM8XX_CLK_S_APB3 NPCM8XX_CLK_S_AHB
       {CLK_DIVIDER_READ_ONLY, CLK_DIVIDER_POWER_OF_TWO} {} (Some NPCM8XX_CLK_APB3),
     Div_data NPCM8XX_CLKDIV2 26 2 NPCM8XX_CLK_S_APB2 NPCM8XX_CLK_S_AHB
       {CLK_DIVIDER_READ_ONLY, CLK_DIVIDER_POWER_OF_TWO} {} (Some NPCM8XX_CLK_APB2),
     Div_data NPCM8XX_CLKDIV2 24 2 NPCM8XX_CLK_S_APB1 NPCM8XX_CLK_S_AHB
       {CLK_DIVIDER_READ_ONLY, CLK_DIVIDER_POWER_OF_TWO} {} (Some NPCM8XX_CLK_APB1),
     Div_data NPCM8XX_CLKDIV2 22 2 NPCM8XX_CLK_S_APB5 NPCM8XX_CLK_S_AHB
       {CLK_DIVIDER_READ_ONLY, CLK_DIVIDER_POWER_OF_TWO} {} (Some NPCM8XX_CLK_APB5),
     Div_data NPCM8XX_CLKDIV2 16 5 NPCM8XX_CLK_S_CLKOUT NPCM8XX_CLK_S_CLKOUT_MUX
       {CLK_DIVIDER_READ_ONLY} {} (Some NPCM8XX_CLK_CLKOUT),
     Div_data NPCM8XX_CLKDIV2 13 3 NPCM8XX_CLK_S_GFX NPCM8XX_CLK_S_GFX_MUX
       {CLK_DIVIDER_READ_ONLY} {} (Some NPCM8XX_CLK_GFX),
     Div_data NPCM8XX_CLKDIV2 8 5 NPCM8XX_CLK_S_USB_BRIDGE NPCM8XX_CLK_S_SU_MUX
       {CLK_DIVIDER_READ_ONLY} {} (Some NPCM8XX_CLK_SU),
     Div_data NPCM8XX_CLKDIV2 4 4 NPCM8XX_CLK_S_USB_HOST NPCM8XX_CLK_S_SU_MUX
       {CLK_DIVIDER_READ_ONLY} {} (Some NPCM8XX_CLK_SU48),
     Div_data NPCM8XX_CLKDIV2 0 4 NPCM8XX_CLK_S_SDHC NPCM8XX_CLK_S_SD_MUX
       {CLK_DIVIDER_READ_ONLY} {} (Some NPCM8XX_CLK_SDHC),

     Div_data NPCM8XX_CLKDIV3 16 8 NPCM8XX_CLK_S_SPI1 NPCM8XX_CLK_S_AHB
       {CLK_DIVIDER_READ_ONLY} {} (Some NPCM8XX_CLK_SPI1),
     Div_data NPCM8XX_CLKDIV3 11 5 NPCM8XX_CLK_S_UART2 NPCM8XX_CLK_S_UART_MUX
       {CLK_DIVIDER_READ_ONLY} {} (Some NPCM8XX_CLK_UART2),
     Div_data NPCM8XX_CLKDIV3 6 5 NPCM8XX_CLK_S_SPI0 NPCM8XX_CLK_S_AHB
       {CLK_DIVIDER_READ_ONLY} {} (Some NPCM8XX_CLK_SPI0),
     Div_data NPCM8XX_CLKDIV3 1 5 NPCM8XX_CLK_S_SPIX NPCM8XX_CLK_S_AHB
       {CLK_DIVIDER_READ_ONLY} {} (Some NPCM8XX_CLK_SPIX),

     Div_data NPCM8XX_CLKDIV4 28 4 NPCM8XX_CLK_S_RG NPCM8XX_CLK_S_RG_MUX
       {CLK_DIVIDER_READ_ONLY} {} (Some NPCM8XX_CLK_RG),
     Div_data NPCM8XX_CLKDIV4 12 4 NPCM8XX_CLK_S_RCP NPCM8XX_CLK_S_RCP_MUX
       {CLK_DIVIDER_READ_ONLY} {} (Some NPCM8XX_CLK_RCP),
     Div_data NPCM8XX_THRTL_CNT 0 2 NPCM8XX_CLK_S_TH NPCM8XX_CLK_S_CPU_MUX
       {CLK_DIVIDER_READ_ONLY, CLK_DIVIDER_POWER_OF_TWO} {} (Some NPCM8XX_CLK_TH)]"

section \<open>Clock nodes and registration\<close>

text \<open>
  Modelled from the spec: the clock framework that keeps the registered clocks is not part
  of the driver file. A registered clock is a node of one of the five kinds of the spec's
  data model; each constructor keeps the arguments of the registration call that creates
  it, in the order of the call (without the device and the spinlock).
\<close>

datatype clk_hw =
    Fixed_Rate string "string option" "clk_flag set" ulong
  | Pll string string "clk_flag set" npcm8xx_clk_pll
  | Fixed_Factor string string "clk_flag set" u32 u32
  | Divider string string "clk_flag set" nat u8 u8 "clk_divider_flag set"
  | Mux string "string list" u8 "clk_flag set" nat u8 u32 u8 "u32 list"

fun clk_name :: "clk_hw \<Rightarrow> string" where
  "clk_name (Fixed_Rate name parent_name fl rate) = name"
| "clk_name (Pll name parent_name fl pll) = name"
| "clk_name (Fixed_Factor name parent_name fl mult dv) = name"
| "clk_name (Divider name parent_name fl reg shift width dfl) = name"
| "clk_name (Mux name parent_names num_parents fl reg shift msk mfl tbl) = name"

fun clk_parents :: "clk_hw \<Rightarrow> string list" where
  "clk_parents (Fixed_Rate name parent_name fl rate) =
     (case parent_name of None \<Rightarrow> [] | Some p \<Rightarrow> [p])"
| "clk_parents (Pll name parent_name fl pll) = [parent_name]"
| "clk_parents (Fixed_Factor name parent_name fl mult dv) = [parent_name]"
| "clk_parents (Divider name parent_name fl reg shift width dfl) = [parent_name]"
| "clk_parents (Mux name parent_names num_parents fl reg shift msk mfl tbl) = parent_names"

fun is_fixed_rate :: "clk_hw \<Rightarrow> bool" where
  "is_fixed_rate (Fixed_Rate name parent_name fl rate) = True"
| "is_fixed_rate node = False"

text \<open>
  Modelled from the spec: the framework's registration functions, which the driver calls
  and does not define. Each creates the node of its kind from its arguments.
\<close>

definition clk_hw_register_fixed_rate ::
    "string \<Rightarrow> string option \<Rightarrow> clk_flag set \<Rightarrow> ulong \<Rightarrow> clk_hw" where
  "clk_hw_register_fixed_rate name parent_name fl fixed_rate =
     Fixed_Rate name parent_name fl fixed_rate"

definition devm_clk_hw_register_fixed_factor ::
    "string \<Rightarrow> string \<Rightarrow> clk_flag set \<Rightarrow> u32 \<Rightarrow> u32 \<Rightarrow> clk_hw" where
  "devm_clk_hw_register_fixed_factor name parent_name fl mult dv =
     Fixed_Factor name parent_name fl mult dv"

definition devm_clk_hw_register_divider ::
    "string \<Rightarrow> string \<Rightarrow> clk_flag set \<Rightarrow> nat \<Rightarrow> u8 \<Rightarrow> u8 \<Rightarrow> clk_divider_flag set \<Rightarrow> clk_hw"
  where
  "devm_clk_hw_register_divider name parent_name fl reg shift width clk_divider_flags =
     Divider name parent_name fl reg shift width clk_divider_flags"

definition clk_hw_register_mux_table ::
    "string \<Rightarrow> string list \<Rightarrow> u8 \<Rightarrow> clk_flag set \<Rightarrow> nat \<Rightarrow> u8 \<Rightarrow> u32 \<Rightarrow> u8 \<Rightarrow> u32 list
      \<Rightarrow> clk_hw" where
  "clk_hw_register_mux_table name parent_names num_parents fl reg shift msk clk_mux_flags tbl =
     Mux name parent_names num_parents fl reg shift msk clk_mux_flags tbl"

text \<open>
  The driver's own registration function for a PLL: the allocated struct is zeroed, then
  \<open>pllcon\<close> is set; the clock has the one parent \<open>parent_name\<close>. The model follows the
  path on which the allocation and the registration succeed.
\<close>

definition npcm8xx_clk_register_pll ::
    "nat \<Rightarrow> string \<Rightarrow> string \<Rightarrow> clk_flag set \<Rightarrow> clk_hw" where
  "npcm8xx_clk_register_pll pllcon_addr name parent_name fl =
     (let pll = \<lparr>pllcon = 0, flags = 0\<rparr>;
          pll = pll\<lparr>pllcon := pllcon_addr\<rparr>
      in Pll name parent_name fl pll)"

text \<open>
  The probe function, on the path on which every allocation and registration succeeds:
  the clocks it registers, in the order of registration. \<open>clk_base\<close> is the address at
  which the register window is mapped.
\<close>

definition npcm8xx_clk_probe :: "nat \<Rightarrow> clk_hw list" where
  "npcm8xx_clk_probe clk_base =
     [clk_hw_register_fixed_rate ''refclk'' None {} NPCM8XX_REF_CLK] @
     map (\<lambda>pll_data.
            npcm8xx_clk_register_pll (clk_base + unat (pll_reg pll_data)) (pll_name pll_data)
              (pll_parent_name pll_data) (pll_flags pll_data))
         npcm8xx_plls @
     [devm_clk_hw_register_fixed_factor NPCM8XX_CLK_S_PLL1_DIV2 NPCM8XX_CLK_S_PLL1 {} 1 2,
      devm_clk_hw_register_fixed_factor NPCM8XX_CLK_S_PLL2_DIV2 NPCM8XX_CLK_S_PLL2 {} 1 2,
      devm_clk_hw_register_fixed_factor NPCM8XX_CLK_S_PRE_CLK NPCM8XX_CLK_S_CPU_MUX {} 1 2,
      devm_clk_hw_register_fixed_factor NPCM8XX_CLK_S_AXI NPCM8XX_CLK_S_TH {} 1 2,
      devm_clk_hw_register_fixed_factor NPCM8XX_CLK_S_ATB NPCM8XX_CLK_S_AXI {} 1 2] @
     map (\<lambda>div_data.
            devm_clk_hw_register_divider (div_name div_data) (div_parent_name div_data)
              (div_flags div_data) (clk_base + unat (div_reg div_data)) (div_shift div_data)
              (div_width div_data) (div_clk_divider_flags div_data))
         npcm8xx_divs @
     map (\<lambda>mux_data.
            clk_hw_register_mux_table (mux_name mux_data) (mux_parent_names mux_data)
              (mux_num_parents mux_data) (mux_flags mux_data)
              (clk_base + unat NPCM8XX_CLKSEL) (mux_shift mux_data)
              (ucast (mux_mask mux_data)) 0 (mux_table mux_data))
         npcm8xx_muxes"

section \<open>Rate resolution\<close>

text \<open>
  Modelled from the spec: the bit-field codec of the spec, \<open>extract(word, shift, width)\<close>,
  the \<open>width\<close>-bit unsigned value at bit position \<open>shift\<close> (named \<open>extract_field\<close>
  here, \<open>extract\<close> being a keyword).
\<close>

definition extract_field :: "u32 \<Rightarrow> nat \<Rightarrow> nat \<Rightarrow> u32" where
  "extract_field word shift width = take_bit width (drop_bit shift word)"

text \<open>
  Modelled from the spec: the rate of a divider, whose operation lives in the clock
  framework. The divisor is \<open>field + 1\<close>, or \<open>2 ^ field\<close> with the power-of-two flag; the
  result is the parent rate divided by it, truncated; a divisor of 0 is \<open>InvalidDivisor\<close>.
\<close>

definition divider_rate :: "ulong \<Rightarrow> u32 \<Rightarrow> clk_divider_flag set \<Rightarrow> clk_error + ulong" where
  "divider_rate parent_rate field dfl =
     (let divisor = (if CLK_DIVIDER_POWER_OF_TWO \<in> dfl then 2 ^ unat field
                     else unat field + 1)
      in if divisor = 0 then Inl InvalidDivisor
         else Inr (word_of_nat (unat parent_rate div divisor)))"

text \<open>
  Modelled from the spec: the rate of a fixed-factor divider, whose operation lives in the
  clock framework: \<open>parent * mult / div\<close> in 64-bit arithmetic, and \<open>ZeroParentRate\<close> when
  the parent rate is 0. The spec leaves a zero \<open>div\<close> open; the model reports it as
  \<open>InvalidDivisor\<close> instead of dividing.
\<close>

definition fixed_factor_rate :: "ulong \<Rightarrow> u32 \<Rightarrow> u32 \<Rightarrow> clk_error + ulong" where
  "fixed_factor_rate parent_rate mult dv =
     (if parent_rate = 0 then Inl ZeroParentRate
      else if dv = 0 then Inl InvalidDivisor
      else Inr ((ucast parent_rate :: u64) * ucast mult div ucast dv))"

text \<open>
  Modelled from the spec: the selection of a mux, whose operation lives in the clock
  framework. The raw selector is the field of the register at \<open>shift\<close> under \<open>mask\<close>; the
  active parent is the index of the first table entry equal to the raw value, if any.
\<close>

definition mux_field :: "u32 \<Rightarrow> u8 \<Rightarrow> u32 \<Rightarrow> u32" where
  "mux_field word shift msk = drop_bit (unat shift) word AND msk"

fun mux_lookup :: "u32 list \<Rightarrow> u32 \<Rightarrow> nat option" where
  "mux_lookup [] raw = None"
| "mux_lookup (x # xs) raw =
     (if x = raw then Some 0 else map_option Suc (mux_lookup xs raw))"

text \<open>
  Modelled from the spec: the resolver's formula per node kind, given the resolution of
  parents as \<open>parent\<close>. Every register is read from the state \<open>s\<close> in which the
  resolution starts (one unchanged register image). A failure of the parent is passed on.
\<close>

definition node_rate ::
    "clk_hw \<Rightarrow> (string \<Rightarrow> clk_error + ulong) \<Rightarrow> mmio \<Rightarrow> clk_error + ulong" where
  "node_rate node parent s =
     (case node of
        Fixed_Rate name parent_name fl rate \<Rightarrow> Inr rate
      | Pll name parent_name fl pll \<Rightarrow>
          (case parent parent_name of
             Inl e \<Rightarrow> Inl e
           | Inr r \<Rightarrow> fst (npcm8xx_clk_pll_recalc_rate pll r s))
      | Fixed_Factor name parent_name fl mult dv \<Rightarrow>
          (case parent parent_name of
             Inl e \<Rightarrow> Inl e
           | Inr r \<Rightarrow> fixed_factor_rate r mult dv)
      | Divider name parent_name fl reg shift width dfl \<Rightarrow>
          (case parent parent_name of
             Inl e \<Rightarrow> Inl e
           | Inr r \<Rightarrow>
               divider_rate r (extract_field (fst (readl_relaxed reg s)) (unat shift) (unat width))
                 dfl)
      | Mux name parent_names num_parents fl reg shift msk mfl tbl \<Rightarrow>
          (case mux_lookup tbl (mux_field (fst (readl_relaxed reg s)) shift msk) of
             None \<Rightarrow> Inl UnknownMuxSelection
           | Some i \<Rightarrow>
               if i < length parent_names then parent (parent_names ! i)
               else Inl InvalidConfiguration))"

text \<open>
  Modelled from the spec: recursive top-down resolution by name. A name that no node of
  the table carries is a dangling reference (\<open>InvalidConfiguration\<close>). The recursion depth
  is capped as the spec allows; \<open>clk_get_rate\<close> caps it above the number of nodes, which
  no chain of an acyclic table reaches.
\<close>

primrec resolve :: "nat \<Rightarrow> clk_hw list \<Rightarrow> mmio \<Rightarrow> string \<Rightarrow> clk_error + ulong" where
  "resolve 0 tbl s name = Inl RecursionLimit"
| "resolve (Suc n) tbl s name =
     (case find (\<lambda>c. clk_name c = name) tbl of
        None \<Rightarrow> Inl InvalidConfiguration
      | Some node \<Rightarrow> node_rate node (resolve n tbl s) s)"

definition clk_get_rate :: "clk_hw list \<Rightarrow> mmio \<Rightarrow> string \<Rightarrow> clk_error + ulong" where
  "clk_get_rate tbl s name = resolve (Suc (length tbl)) tbl s name"

text \<open>
  The depth of each registered clock below the reference clock; names that are not
  registered have depth 0. It is used to bound the recursion of the resolver.
\<close>

definition clk_rank :: "string \<Rightarrow> nat" where
  "clk_rank name =
     (if name \<in> set (map pll_name npcm8xx_plls) then 1
      else if name \<in> set [NPCM8XX_CLK_S_PLL1_DIV2, NPCM8XX_CLK_S_PLL2_DIV2] then 2
      else if name \<in> set (map mux_name npcm8xx_muxes) then 3
      else if name \<in> set [NPCM8XX_CLK_S_AHB, NPCM8XX_CLK_S_AXI, NPCM8XX_CLK_S_ADC] then 5
      else if name \<in> set [NPCM8XX_CLK_S_ATB, NPCM8XX_CLK_S_SPI3, NPCM8XX_CLK_S_APB4,
                NPCM8XX_CLK_S_APB3, NPCM8XX_CLK_S_APB2, NPCM8XX_CLK_S_APB1,
                NPCM8XX_CLK_S_APB5, NPCM8XX_CLK_S_SPI1, NPCM8XX_CLK_S_SPI0,
                NPCM8XX_CLK_S_SPIX] then 6
      else if name = NPCM8XX_CLK_S_PRE_CLK \<or> name \<in> set (map div_name npcm8xx_divs) then 4
      else 0)"

text \<open>
  A table is ranked by \<open>rank\<close> when every parent reference of every node has a smaller
  rank than the node itself; a ranked table has no cycle.
\<close>

definition ranked :: "clk_hw list \<Rightarrow> (string \<Rightarrow> nat) \<Rightarrow> bool" where
  "ranked tbl rank \<longleftrightarrow> list_all (\<lambda>node. list_all (\<lambda>p. rank p < rank (clk_name node)) (clk_parents node)) tbl"

text \<open>
  A register image for the dividers: CLKSEL holds 2, so the cpu mux selects the reference
  clock; CLKDIV1 holds \<open>0x0C000000\<close>, so the field of \<open>ahb\<close> (bits 27:26) is 3; THRTL_CNT
  holds 1, so the field of \<open>th\<close> (bits 1:0) is 1; every other register holds 0.
\<close>

definition divider_scenario :: "nat \<Rightarrow> u32" where
  "divider_scenario a =
     (if a = unat NPCM8XX_CLKSEL then 2
      else if a = unat NPCM8XX_CLKDIV1 then 0x0C000000
      else if a = unat NPCM8XX_THRTL_CNT then 1
      else 0)"

section \<open>Properties of the PLL rate computation\<close>

lemma bf_shf_GENMASK:
  assumes "l \<le> h" and "h < 64"
  shows "bf_shf (GENMASK h l) = l"
proof -
  have b: "bit (GENMASK h l) n \<longleftrightarrow> l \<le> n \<and> n \<le> h" for n
    using assms by (auto simp: GENMASK_def bit_push_bit_iff bit_mask_iff)
  have split: "[0..<64] = [0..<l] @ l # [Suc l..<64]"
    using assms by (metis le_less_trans upt_conv_Cons upt_add_eq_append le_add_diff_inverse zero_le less_imp_le_nat)
  have "takeWhile (\<lambda>n. \<not> bit (GENMASK h l) n) ([0..<l] @ l # [Suc l..<64]) = [0..<l]"
    using assms by (subst takeWhile_append2) (auto simp: b)
  then show ?thesis
    by (simp add: bf_shf_def split)
qed

lemma unat_FIELD_GET:
  assumes "l \<le> h" and "h < 32"
  shows "unat (FIELD_GET (GENMASK h l) w) = bits h l w"
proof -
  have s: "bf_shf (GENMASK h l) = l"
    using assms by (simp add: bf_shf_GENMASK)
  have "drop_bit l (ucast w AND GENMASK h l) = take_bit (Suc h - l) (drop_bit l (ucast w :: ulong))"
    by (rule bit_eqI) (auto simp: GENMASK_def bit_simps)
  then have "FIELD_GET (GENMASK h l) w = take_bit (Suc h - l) (drop_bit l (ucast w))"
    by (simp add: FIELD_GET_def s)
  moreover have "unat (ucast w :: ulong) = unat w"
    by (simp add: unsigned_ucast_eq take_bit_nat_eq_self_iff) (rule less_trans [OF unsigned_less], simp)
  moreover have "unat (take_bit (Suc h - l) (drop_bit l (ucast w :: ulong)))
      = take_bit (Suc h - l) (drop_bit l (unat (ucast w :: ulong)))"
    by (simp only: unsigned_take_bit_eq unat_drop_bit_eq)
  ultimately show ?thesis
    by (simp add: bits_def take_bit_eq_mod drop_bit_eq_div)
qed

lemma bits_less: "bits h l w < 2 ^ (Suc h - l)"
  by (simp add: bits_def)

lemma unat_fields:
  "unat (FIELD_GET PLLCON_INDV val) = bits 5 0 val"
  "unat (FIELD_GET PLLCON_FBDV val) = bits 27 16 val"
  "unat (FIELD_GET PLLCON_OTDV1 val) = bits 10 8 val"
  "unat (FIELD_GET PLLCON_OTDV2 val) = bits 15 13 val"
  by (simp_all add: PLLCON_INDV_def PLLCON_FBDV_def PLLCON_OTDV1_def PLLCON_OTDV2_def unat_FIELD_GET)

lemma do_div_eq:
  assumes "unat base < 2 ^ 32"
  shows "do_div n base =
    (if unat base = 0 then Inl DivideByZero else Inr (word_of_nat (unat n div unat base)))"
proof -
  have u: "unat (ucast base :: u32) = unat base"
    using assms by (simp add: unsigned_ucast_eq take_bit_nat_eq_self_iff)
  have z: "(ucast base :: u32) = 0 \<longleftrightarrow> unat base = 0"
    by (simp add: word_unat_eq_iff u)
  have "unat (take_bit 32 base) = unat base"
    using assms by (simp add: unsigned_take_bit_eq take_bit_nat_eq_self_iff)
  then have "take_bit 32 base = base"
    by (simp only: word_unat_eq_iff)
  moreover have "(ucast (ucast base :: u32) :: u64) = take_bit 32 base"
    by (rule bit_eqI) (auto simp: bit_simps)
  ultimately have b: "(ucast (ucast base :: u32) :: u64) = base"
    by (simp only:)
  have "n div base = word_of_nat (unat n div unat base)"
    by (simp flip: unat_div)
  then show ?thesis
    by (simp add: do_div_def Let_def z b)
qed

lemma pll_divisor:
  fixes a b c :: ulong
  assumes "unat a < 64" "unat b < 8" "unat c < 8"
  shows "unat (a * b * c) = unat a * unat b * unat c"
proof -
  have "unat a * unat b < 64 * 8"
    using assms by (meson mult_strict_mono' zero_le)
  then have ab: "unat (a * b) = unat a * unat b"
    by (simp add: unat_mult_lem [THEN iffD1])
  have "unat a * unat b * unat c < (64 * 8) * 8"
    using \<open>unat a * unat b < 64 * 8\<close> assms(3) by (meson mult_strict_mono' zero_le)
  then show ?thesis
    using ab by (simp add: unat_mult_lem [THEN iffD1])
qed

lemma pll_recalc_rate_eq:
  assumes "parent_rate \<noteq> 0"
  shows "npcm8xx_clk_pll_recalc_rate pll parent_rate s =
    (let val = regs s (reads s) (pllcon pll);
         d = bits 5 0 val * bits 10 8 val * bits 15 13 val
     in (if d = 0 then Inl DivideByZero
         else Inr (word_of_nat ((unat parent_rate * bits 27 16 val) mod 2 ^ 64 div d)),
         s\<lparr>reads := Suc (reads s)\<rparr>))"
proof -
  define val where "val = regs s (reads s) (pllcon pll)"
  have i: "unat (FIELD_GET PLLCON_INDV val) < 64"
    and o1: "unat (FIELD_GET PLLCON_OTDV1 val) < 8"
    and o2: "unat (FIELD_GET PLLCON_OTDV2 val) < 8"
    using bits_less [of 5 0 val] bits_less [of 10 8 val] bits_less [of 15 13 val]
    by (simp_all add: unat_fields)
  have d: "unat (FIELD_GET PLLCON_INDV val * FIELD_GET PLLCON_OTDV1 val * FIELD_GET PLLCON_OTDV2 val)
      = bits 5 0 val * bits 10 8 val * bits 15 13 val"
    using pll_divisor [OF i o1 o2] by (simp add: unat_fields)
  have "bits 5 0 val * bits 10 8 val * bits 15 13 val < 64 * 8 * 8"
    using i o1 o2 unfolding unat_fields by (meson mult_strict_mono' zero_le)
  then have small: "unat (FIELD_GET PLLCON_INDV val * FIELD_GET PLLCON_OTDV1 val * FIELD_GET PLLCON_OTDV2 val) < 2 ^ 32"
    unfolding d by simp
  have r: "unat (parent_rate * FIELD_GET PLLCON_FBDV val) = (unat parent_rate * bits 27 16 val) mod 2 ^ 64"
    by (simp add: unat_word_ariths unat_fields)
  show ?thesis
    using assms
    by (simp add: npcm8xx_clk_pll_recalc_rate_def readl_relaxed_def Let_def do_div_eq [OF small]
        d r flip: val_def)
qed


text \<open>
  Claim C1, as amended. For every PLL and every nonzero parent rate, when the divisor
  \<open>INDV * OTDV1 * OTDV2\<close> of the control word is not 0, the function reads the control word
  once and returns \<open>floor((parent_rate * FBDV mod 2^64) / (INDV * OTDV1 * OTDV2))\<close>, with
  INDV = bits 5:0, OTDV1 = bits 10:8, OTDV2 = bits 15:13 and FBDV = bits 27:16 of that one
  word; the product is taken in 64 bits. Whenever \<open>parent_rate * FBDV\<close> is below \<open>2^64\<close>
  this is \<open>floor(parent_rate * FBDV / (INDV * OTDV1 * OTDV2))\<close>.
\<close>

theorem pll_recalc_rate_formula:
  assumes "parent_rate \<noteq> 0"
    and "val = regs s (reads s) (pllcon pll)"
    and "bits 5 0 val * bits 10 8 val * bits 15 13 val \<noteq> 0"
  shows "\<exists>rate. npcm8xx_clk_pll_recalc_rate pll parent_rate s
            = (Inr rate, s\<lparr>reads := Suc (reads s)\<rparr>)
        \<and> unat rate = (unat parent_rate * bits 27 16 val) mod 2 ^ 64
                        div (bits 5 0 val * bits 10 8 val * bits 15 13 val)
        \<and> (unat parent_rate * bits 27 16 val < 2 ^ 64 \<longrightarrow>
             unat rate = unat parent_rate * bits 27 16 val
                          div (bits 5 0 val * bits 10 8 val * bits 15 13 val))"
proof -
  let ?d = "bits 5 0 val * bits 10 8 val * bits 15 13 val"
  let ?n = "(unat parent_rate * bits 27 16 val) mod 2 ^ 64"
  have "?n div ?d \<le> ?n"
    by (rule div_le_dividend)
  also have "?n < 2 ^ 64"
    by simp
  finally have u: "unat (word_of_nat (?n div ?d) :: ulong) = ?n div ?d"
    by (simp add: unat_of_nat)
  have "npcm8xx_clk_pll_recalc_rate pll parent_rate s
      = (Inr (word_of_nat (?n div ?d)), s\<lparr>reads := Suc (reads s)\<rparr>)"
    using assms by (simp add: pll_recalc_rate_eq Let_def)
  with u show ?thesis
    by auto
qed

text \<open>
  The reference clock of 25 MHz and the control word \<open>0x00402201\<close> (INDV 1, OTDV1 2,
  OTDV2 1, FBDV 64) satisfy the hypotheses; the rate is 800 MHz after one read.
\<close>

theorem pll_recalc_rate_formula_witness:
  "\<exists>rate. npcm8xx_clk_pll_recalc_rate \<lparr>pllcon = 12, flags = 0\<rparr> 25000000 (frozen (\<lambda>a. 0x00402201))
      = (Inr rate, (frozen (\<lambda>a. 0x00402201))\<lparr>reads := 1\<rparr>) \<and> unat rate = 800000000"
  using pll_recalc_rate_formula [of 25000000 "0x00402201" "frozen (\<lambda>a. 0x00402201)" "\<lparr>pllcon = 12, flags = 0\<rparr>"]
  by (simp add: frozen_def bits_def)

text \<open>
  Claim C1 as stated fails at two inputs. With the parent rate \<open>2^63\<close> and the control
  word \<open>0x00022101\<close> (INDV 1, OTDV1 1, OTDV2 1, FBDV 2) the 64-bit product wraps and the
  function returns 0, where the formula gives \<open>2^64\<close>. With the control word 0 the divisor
  is 0 and the function divides by zero instead of returning a rate.
\<close>

theorem pll_recalc_rate_counterexample:
  "fst (npcm8xx_clk_pll_recalc_rate \<lparr>pllcon = 12, flags = 0\<rparr> (2 ^ 63) (frozen (\<lambda>a. 0x00022101))) = Inr 0
   \<and> unat (2 ^ 63 :: ulong) * bits 27 16 0x00022101
        div (bits 5 0 0x00022101 * bits 10 8 0x00022101 * bits 15 13 0x00022101) = 2 ^ 64
   \<and> fst (npcm8xx_clk_pll_recalc_rate \<lparr>pllcon = 12, flags = 0\<rparr> 25000000 (frozen (\<lambda>a. 0))) = Inl DivideByZero
   \<and> bits 5 0 0 * bits 10 8 0 * bits 15 13 0 = 0"
  by (simp add: pll_recalc_rate_eq frozen_def bits_def Let_def)

text \<open>
  Claim C4. For every PLL, a parent rate of 0 makes the function return the rate 0 (not
  an error) and leaves the register state as it was: no register is read, nothing is
  divided, and the result is the same for every register content. So a PLL node whose
  parent resolves to 0 resolves to 0.
\<close>

theorem pll_zero_parent_rate:
  "npcm8xx_clk_pll_recalc_rate pll 0 s = (Inr 0, s)
   \<and> node_rate (Pll name parent_name fl pll) (\<lambda>p. Inr 0) s = Inr 0"
  by (simp add: npcm8xx_clk_pll_recalc_rate_def node_rate_def)

text \<open>
  Claim C9. For every parent rate, two control words that agree on INDV (bits 5:0), OTDV1
  (bits 10:8), OTDV2 (bits 15:13) and FBDV (bits 27:16) give the same result, whatever
  their other bits (PWDEN at bit 12, the lock bits 30 and 31 and the unused bits) are.
\<close>

theorem pll_rate_fields_only:
  assumes "bits 5 0 v1 = bits 5 0 v2" and "bits 10 8 v1 = bits 10 8 v2"
    and "bits 15 13 v1 = bits 15 13 v2" and "bits 27 16 v1 = bits 27 16 v2"
    and "regs s1 (reads s1) (pllcon pll1) = v1" and "regs s2 (reads s2) (pllcon pll2) = v2"
  shows "fst (npcm8xx_clk_pll_recalc_rate pll1 parent_rate s1)
       = fst (npcm8xx_clk_pll_recalc_rate pll2 parent_rate s2)"
proof (cases "parent_rate = 0")
  case True
  then show ?thesis
    by (simp add: npcm8xx_clk_pll_recalc_rate_def)
next
  case False
  then show ?thesis
    using assms by (simp add: pll_recalc_rate_eq Let_def)
qed

text \<open>
  The words \<open>0x00402201\<close> and \<open>0xC0403201\<close> agree on the four fields and differ in PWDEN
  and in both lock bits.
\<close>

theorem pll_rate_fields_only_witness:
  "fst (npcm8xx_clk_pll_recalc_rate \<lparr>pllcon = 12, flags = 0\<rparr> 25000000 (frozen (\<lambda>a. 0x00402201)))
     = fst (npcm8xx_clk_pll_recalc_rate \<lparr>pllcon = 12, flags = 0\<rparr> 25000000 (frozen (\<lambda>a. 0xC0403201)))
   \<and> bits 12 12 0x00402201 \<noteq> bits 12 12 0xC0403201
   \<and> bits 31 30 0x00402201 \<noteq> bits 31 30 0xC0403201"
  using pll_rate_fields_only [of "0x00402201" "0xC0403201" "frozen (\<lambda>a. 0x00402201)"
      "\<lparr>pllcon = 12, flags = 0\<rparr>" "frozen (\<lambda>a. 0xC0403201)" "\<lparr>pllcon = 12, flags = 0\<rparr>" 25000000]
  by (simp add: frozen_def bits_def)

text \<open>
  Claim C10. The division has no guard: for a nonzero parent rate the function divides by
  zero exactly when one of INDV, OTDV1, OTDV2 of the control word is 0. When each of the
  three is at least 1 the division by zero cannot happen and the function returns a rate.
\<close>

theorem pll_divide_by_zero_iff:
  assumes "parent_rate \<noteq> 0" and "val = regs s (reads s) (pllcon pll)"
  shows "(fst (npcm8xx_clk_pll_recalc_rate pll parent_rate s) = Inl DivideByZero
            \<longleftrightarrow> bits 5 0 val = 0 \<or> bits 10 8 val = 0 \<or> bits 15 13 val = 0)
       \<and> (1 \<le> bits 5 0 val \<and> 1 \<le> bits 10 8 val \<and> 1 \<le> bits 15 13 val
            \<longrightarrow> (\<exists>rate. fst (npcm8xx_clk_pll_recalc_rate pll parent_rate s) = Inr rate))"
  using assms by (auto simp: pll_recalc_rate_eq Let_def)

text \<open>
  The control word \<open>0x00402200\<close> has INDV 0 and divides by zero; \<open>0x00402201\<close> has the
  three dividers at least 1 and returns a rate.
\<close>

theorem pll_divide_by_zero_iff_witness:
  "fst (npcm8xx_clk_pll_recalc_rate \<lparr>pllcon = 12, flags = 0\<rparr> 25000000 (frozen (\<lambda>a. 0x00402200))) = Inl DivideByZero
   \<and> (\<exists>rate. fst (npcm8xx_clk_pll_recalc_rate \<lparr>pllcon = 12, flags = 0\<rparr> 25000000 (frozen (\<lambda>a. 0x00402201))) = Inr rate)"
  using pll_divide_by_zero_iff [of 25000000 "0x00402200" "frozen (\<lambda>a. 0x00402200)" "\<lparr>pllcon = 12, flags = 0\<rparr>"]
    pll_divide_by_zero_iff [of 25000000 "0x00402201" "frozen (\<lambda>a. 0x00402201)" "\<lparr>pllcon = 12, flags = 0\<rparr>"]
  by (simp add: frozen_def bits_def)

section \<open>Properties of the registered table and of the resolver\<close>

lemmas table_defs =
  npcm8xx_plls_def npcm8xx_muxes_def npcm8xx_divs_def
  pll_mux_table_def pll_mux_parents_def cpuck_mux_table_def cpuck_mux_parents_def
  pixcksel_mux_table_def pixcksel_mux_parents_def sucksel_mux_table_def sucksel_mux_parents_def
  mccksel_mux_table_def mccksel_mux_parents_def clkoutsel_mux_table_def
  clkoutsel_mux_parents_def gfxmsel_mux_table_def gfxmsel_mux_parents_def
  dvcssel_mux_table_def dvcssel_mux_parents_def

lemmas register_defs =
  clk_hw_register_fixed_rate_def devm_clk_hw_register_fixed_factor_def
  devm_clk_hw_register_divider_def clk_hw_register_mux_table_def npcm8xx_clk_register_pll_def

lemma probe_names:
  "map clk_name (npcm8xx_clk_probe base) =
     ''refclk'' # map pll_name npcm8xx_plls @
     [''pll1_div2'', ''pll2_div2'', ''pre_clk'', ''axi'', ''atb''] @
     map div_name npcm8xx_divs @ map mux_name npcm8xx_muxes"
  by (simp add: npcm8xx_clk_probe_def register_defs comp_def Let_def)

lemma probe_distinct: "distinct (map clk_name (npcm8xx_clk_probe base))"
  unfolding probe_names by (simp add: table_defs)

lemma probe_length: "length (npcm8xx_clk_probe base) = 47"
  by (simp add: npcm8xx_clk_probe_def table_defs)

lemma clk_rank_le: "clk_rank name \<le> 6"
  by (simp add: clk_rank_def)

lemma probe_ranked: "ranked (npcm8xx_clk_probe base) clk_rank"
  by (simp add: ranked_def npcm8xx_clk_probe_def register_defs table_defs clk_rank_def Let_def)


lemma find_clk:
  assumes "distinct (map clk_name tbl)" and "node \<in> set tbl"
  shows "find (\<lambda>c. clk_name c = clk_name node) tbl = Some node"
  using assms
proof (induction tbl)
  case Nil
  then show ?case by simp
next
  case (Cons c tbl)
  then show ?case
    by (cases "c = node") (auto simp: image_iff)
qed

lemma node_rate_cong:
  assumes "\<And>p. p \<in> set (clk_parents node) \<Longrightarrow> f p = g p"
  shows "node_rate node f s = node_rate node g s"
proof (cases node)
  case (Mux name parent_names num_parents fl reg shift msk mfl tbl)
  then show ?thesis
    using assms by (simp add: node_rate_def split: option.splits)
qed (use assms in \<open>simp_all add: node_rate_def\<close>)

lemma resolve_stable:
  assumes "ranked tbl rank"
  shows "rank name < n \<Longrightarrow> resolve (Suc n) tbl s name = resolve n tbl s name"
proof (induction n arbitrary: name)
  case 0
  then show ?case by simp
next
  case (Suc n)
  show ?case
  proof (cases "find (\<lambda>c. clk_name c = name) tbl")
    case None
    then show ?thesis by simp
  next
    case (Some node)
    then have node: "node \<in> set tbl" and name: "clk_name node = name"
      by (auto simp: find_Some_iff)
    have "resolve (Suc n) tbl s p = resolve n tbl s p" if "p \<in> set (clk_parents node)" for p
    proof -
      have "rank p < rank (clk_name node)"
        using assms node that by (auto simp: ranked_def list_all_iff)
      with Suc.prems name have "rank p < n"
        by simp
      then show ?thesis
        by (rule Suc.IH)
    qed
    then have "node_rate node (resolve (Suc n) tbl s) s = node_rate node (resolve n tbl s) s"
      by (rule node_rate_cong)
    with Some show ?thesis
      by simp
  qed
qed

lemma resolve_stable_le:
  assumes "ranked tbl rank" and "rank name < n" and "n \<le> m"
  shows "resolve m tbl s name = resolve n tbl s name"
  using assms(3,2)
proof (induction m rule: dec_induct)
  case base
  then show ?case by simp
next
  case (step m)
  then have "rank name < m"
    by simp
  then have "resolve (Suc m) tbl s name = resolve m tbl s name"
    by (rule resolve_stable [OF assms(1)])
  with step show ?case
    by simp
qed

lemma clk_get_rate_step:
  assumes r: "ranked tbl rank" and d: "distinct (map clk_name tbl)"
    and b: "\<And>name. rank name < length tbl" and n: "node \<in> set tbl"
  shows "clk_get_rate tbl s (clk_name node) = node_rate node (clk_get_rate tbl s) s"
proof -
  have "clk_get_rate tbl s p = resolve (length tbl) tbl s p" for p
    unfolding clk_get_rate_def by (rule resolve_stable [OF r b])
  then have e: "resolve (length tbl) tbl s = clk_get_rate tbl s"
    by (intro ext) simp
  have "clk_get_rate tbl s (clk_name node) = node_rate node (resolve (length tbl) tbl s) s"
    by (simp add: clk_get_rate_def find_clk [OF d n])
  then show ?thesis
    by (simp only: e)
qed

lemma probe_step:
  assumes "node \<in> set (npcm8xx_clk_probe base)"
  shows "clk_get_rate (npcm8xx_clk_probe base) s (clk_name node)
       = node_rate node (clk_get_rate (npcm8xx_clk_probe base) s) s"
proof (rule clk_get_rate_step [OF probe_ranked probe_distinct _ assms])
  show "clk_rank name < length (npcm8xx_clk_probe base)" for name
    using clk_rank_le [of name] by (simp add: probe_length)
qed

lemma pll_no_recursion_limit:
  "fst (npcm8xx_clk_pll_recalc_rate pll r s) \<noteq> Inl RecursionLimit"
proof (cases "r = 0")
  case True
  then show ?thesis
    by (simp add: npcm8xx_clk_pll_recalc_rate_def)
next
  case False
  then show ?thesis
    by (simp add: pll_recalc_rate_eq Let_def)
qed

lemma node_rate_no_recursion_limit:
  assumes "\<And>p. p \<in> set (clk_parents node) \<Longrightarrow> f p \<noteq> Inl RecursionLimit"
  shows "node_rate node f s \<noteq> Inl RecursionLimit"
proof (cases node)
  case (Fixed_Rate name parent_name fl rate)
  then show ?thesis by (simp add: node_rate_def)
next
  case (Pll name parent_name fl pll)
  then show ?thesis
    using assms [of parent_name]
    by (auto simp: node_rate_def pll_no_recursion_limit split: sum.splits)
next
  case (Fixed_Factor name parent_name fl mult dv)
  then show ?thesis
    using assms [of parent_name]
    by (auto simp: node_rate_def fixed_factor_rate_def split: sum.splits)
next
  case (Divider name parent_name fl reg shift width dfl)
  then show ?thesis
    using assms [of parent_name]
    by (auto simp: node_rate_def divider_rate_def Let_def split: sum.splits)
next
  case (Mux name parent_names num_parents fl reg shift msk mfl tbl)
  then show ?thesis
    using assms by (auto simp: node_rate_def split: option.splits)
qed

lemma resolve_no_recursion_limit:
  assumes "ranked tbl rank"
  shows "rank name < n \<Longrightarrow> resolve n tbl s name \<noteq> Inl RecursionLimit"
proof (induction n arbitrary: name)
  case 0
  then show ?case by simp
next
  case (Suc n)
  show ?case
  proof (cases "find (\<lambda>c. clk_name c = name) tbl")
    case None
    then show ?thesis by simp
  next
    case (Some node)
    then have node: "node \<in> set tbl" and name: "clk_name node = name"
      by (auto simp: find_Some_iff)
    have "resolve n tbl s p \<noteq> Inl RecursionLimit" if "p \<in> set (clk_parents node)" for p
    proof -
      have "rank p < rank (clk_name node)"
        using assms node that by (auto simp: ranked_def list_all_iff)
      with Suc.prems name have "rank p < n"
        by simp
      then show ?thesis
        by (rule Suc.IH)
    qed
    then have "node_rate node (resolve n tbl s) s \<noteq> Inl RecursionLimit"
      by (rule node_rate_no_recursion_limit)
    with Some show ?thesis
      by simp
  qed
qed

lemma probe_no_recursion_limit:
  "clk_get_rate (npcm8xx_clk_probe base) s name \<noteq> Inl RecursionLimit"
  unfolding clk_get_rate_def
proof (rule resolve_no_recursion_limit [OF probe_ranked])
  show "clk_rank name < Suc (length (npcm8xx_clk_probe base))"
    using clk_rank_le [of name] by (simp add: probe_length)
qed

section \<open>Dividers and muxes\<close>

lemma probe_set:
  "set (npcm8xx_clk_probe base) =
     {Fixed_Rate ''refclk'' None {} NPCM8XX_REF_CLK} \<union>
     (\<lambda>p. Pll (pll_name p) (pll_parent_name p) (pll_flags p)
            \<lparr>pllcon = base + unat (pll_reg p), flags = 0\<rparr>) ` set npcm8xx_plls \<union>
     {Fixed_Factor ''pll1_div2'' ''pll1'' {} 1 2, Fixed_Factor ''pll2_div2'' ''pll2'' {} 1 2,
      Fixed_Factor ''pre_clk'' ''cpu'' {} 1 2, Fixed_Factor ''axi'' ''th'' {} 1 2,
      Fixed_Factor ''atb'' ''axi'' {} 1 2} \<union>
     (\<lambda>d. Divider (div_name d) (div_parent_name d) (div_flags d) (base + unat (div_reg d))
            (div_shift d) (div_width d) (div_clk_divider_flags d)) ` set npcm8xx_divs \<union>
     (\<lambda>m. Mux (mux_name m) (mux_parent_names m) (mux_num_parents m) (mux_flags m)
            (base + unat NPCM8XX_CLKSEL) (mux_shift m) (ucast (mux_mask m)) 0 (mux_table m))
       ` set npcm8xx_muxes"
  by (auto simp: npcm8xx_clk_probe_def register_defs Let_def)

lemma unat_extract_field:
  "unat (extract_field word shift width) = (unat word div 2 ^ shift) mod 2 ^ width"
proof -
  have "unat (take_bit width (drop_bit shift word)) = take_bit width (drop_bit shift (unat word))"
    by (simp only: unsigned_take_bit_eq unat_drop_bit_eq)
  then show ?thesis
    by (simp add: extract_field_def take_bit_eq_mod drop_bit_eq_div)
qed

lemma drop_bit_word_of_nat:
  "word_of_nat (unat r div 2 ^ n) = drop_bit n (r :: ulong)"
proof -
  have "unat (drop_bit n r) = drop_bit n (unat r)"
    by (rule unat_drop_bit_eq)
  also have "\<dots> = unat r div 2 ^ n"
    by (rule drop_bit_eq_div)
  finally have "word_of_nat (unat r div 2 ^ n) = (word_of_nat (unat (drop_bit n r)) :: ulong)"
    by simp
  then show ?thesis
    by simp
qed

lemma div_word_of_nat:
  assumes "k < 2 ^ 64"
  shows "word_of_nat (unat r div k) = (r :: ulong) div word_of_nat k"
proof -
  have "unat (word_of_nat k :: ulong) = k"
    using assms by (simp add: unat_of_nat)
  then have "unat (r div word_of_nat k) = unat r div k"
    by (simp add: unat_div)
  then have "word_of_nat (unat r div k) = (word_of_nat (unat (r div word_of_nat k)) :: ulong)"
    by simp
  then show ?thesis
    by simp
qed

lemmas offset_defs =
  NPCM8XX_CLKSEL_def NPCM8XX_CLKDIV1_def NPCM8XX_CLKDIV2_def NPCM8XX_CLKDIV3_def
  NPCM8XX_CLKDIV4_def NPCM8XX_PLLCON0_def NPCM8XX_PLLCON1_def NPCM8XX_PLLCON2_def
  NPCM8XX_PLLCONG_def NPCM8XX_THRTL_CNT_def

lemma frozen_sel: "regs (frozen f) t = f" "reads (frozen f) = 0"
  by (simp_all add: frozen_def)

lemma probe_refclk:
  "clk_get_rate (npcm8xx_clk_probe base) s ''refclk'' = Inr 25000000"
proof -
  have "Fixed_Rate ''refclk'' None {} NPCM8XX_REF_CLK \<in> set (npcm8xx_clk_probe base)"
    by (simp add: probe_set)
  from probe_step [OF this, of s] show ?thesis
    by (simp add: node_rate_def NPCM8XX_REF_CLK_def)
qed

lemma probe_pll:
  assumes "p \<in> set npcm8xx_plls"
  shows "clk_get_rate (npcm8xx_clk_probe base) s (pll_name p)
       = fst (npcm8xx_clk_pll_recalc_rate \<lparr>pllcon = base + unat (pll_reg p), flags = 0\<rparr>
                25000000 s)"
proof -
  let ?node = "Pll (pll_name p) (pll_parent_name p) (pll_flags p)
            \<lparr>pllcon = base + unat (pll_reg p), flags = 0\<rparr>"
  have par: "pll_parent_name p = ''refclk''"
    using assms by (auto simp: npcm8xx_plls_def)
  have "?node \<in> set (npcm8xx_clk_probe base)"
    using assms by (simp add: probe_set)
  from probe_step [OF this, of s] show ?thesis
    by (simp add: node_rate_def par probe_refclk)
qed

lemma scenario_cpu:
  "clk_get_rate (npcm8xx_clk_probe 0) (frozen divider_scenario) ''cpu'' = Inr 25000000"
proof -
  let ?m = "Mux_data 0 (ucast (GENMASK 1 0)) cpuck_mux_table ''cpu''
       cpuck_mux_parents (of_nat (length cpuck_mux_parents)) {CLK_IS_CRITICAL}
       (Some NPCM8XX_CLK_CPU)"
  have m: "?m \<in> set npcm8xx_muxes"
    by (simp add: npcm8xx_muxes_def)
  let ?node = "Mux (mux_name ?m) (mux_parent_names ?m) (mux_num_parents ?m) (mux_flags ?m)
            (0 + unat NPCM8XX_CLKSEL) (mux_shift ?m) (ucast (mux_mask ?m)) 0 (mux_table ?m)"
  have "?node \<in> set (npcm8xx_clk_probe 0)"
    unfolding probe_set using m by blast
  from probe_step [OF this, of "frozen divider_scenario"] show ?thesis
    by (simp add: node_rate_def readl_relaxed_def frozen_def divider_scenario_def mux_field_def
        GENMASK_def mask_eq_exp_minus_1 cpuck_mux_table_def cpuck_mux_parents_def probe_refclk)
qed

lemma scenario_pre_clk:
  "clk_get_rate (npcm8xx_clk_probe 0) (frozen divider_scenario) ''pre_clk'' = Inr 12500000"
proof -
  have "Fixed_Factor ''pre_clk'' ''cpu'' {} 1 2 \<in> set (npcm8xx_clk_probe 0)"
    by (simp add: probe_set)
  from probe_step [OF this, of "frozen divider_scenario"] show ?thesis
    by (simp add: node_rate_def fixed_factor_rate_def scenario_cpu)
qed

text \<open>
  Claim C2. For every divider of the table \<open>npcm8xx_divs\<close>, as the probe registers it, and
  for every value \<open>field\<close> of its register bit-field: without the power-of-two flag the
  node resolves to the parent's rate divided by \<open>field + 1\<close> and truncated (the divisor
  does not wrap), with the flag to the parent's rate shifted right by \<open>field\<close>. A failure
  of the parent is passed on. The resolver finds the divider's node under the divider's
  name, applies this formula to every rate \<open>r\<close> the parent resolves to, and does not run
  into the recursion limit.
\<close>

theorem divider_resolve:
  assumes "d \<in> set npcm8xx_divs"
    and "word = regs s (reads s) (base + unat (div_reg d))"
    and "field = (unat word div 2 ^ unat (div_shift d)) mod 2 ^ unat (div_width d)"
    and "node = Divider (div_name d) (div_parent_name d) (div_flags d)
           (base + unat (div_reg d)) (div_shift d) (div_width d) (div_clk_divider_flags d)"
  shows "clk_get_rate (npcm8xx_clk_probe base) s (div_name d) =
           (case clk_get_rate (npcm8xx_clk_probe base) s (div_parent_name d) of
              Inl e \<Rightarrow> Inl e
            | Inr r \<Rightarrow>
                Inr (if CLK_DIVIDER_POWER_OF_TWO \<in> div_clk_divider_flags d
                     then drop_bit field r
                     else r div word_of_nat (field + 1)))
         \<and> unat (word_of_nat (field + 1) :: ulong) = field + 1
         \<and> find (\<lambda>c. clk_name c = div_name d) (npcm8xx_clk_probe base) = Some node
         \<and> (\<forall>r. node_rate node (\<lambda>p. Inr r) s =
                Inr (if CLK_DIVIDER_POWER_OF_TWO \<in> div_clk_divider_flags d
                     then drop_bit field r
                     else r div word_of_nat (field + 1)))
         \<and> clk_get_rate (npcm8xx_clk_probe base) s (div_name d) \<noteq> Inl RecursionLimit"
proof -
  have reg: "node \<in> set (npcm8xx_clk_probe base)"
    using assms(1) by (simp add: probe_set assms(4))
  have nm: "clk_name node = div_name d"
    by (simp add: assms(4))
  from probe_step [OF reg, of s]
  have step: "clk_get_rate (npcm8xx_clk_probe base) s (div_name d)
      = node_rate node (clk_get_rate (npcm8xx_clk_probe base) s) s"
    by (simp add: nm)
  have "unat word < 2 ^ 32"
    using unsigned_less [of word] by simp
  have "field \<le> unat word"
    unfolding assms(3) by (meson div_le_dividend le_trans mod_less_eq_dividend)
  with \<open>unat word < 2 ^ 32\<close> have small: "field + 1 < 2 ^ 64"
    by simp
  have f: "unat (extract_field word (unat (div_shift d)) (unat (div_width d))) = field"
    by (simp add: unat_extract_field assms(3))
  have rate: "divider_rate r (extract_field word (unat (div_shift d)) (unat (div_width d)))
          (div_clk_divider_flags d)
      = Inr (if CLK_DIVIDER_POWER_OF_TWO \<in> div_clk_divider_flags d
             then drop_bit field r else r div word_of_nat (field + 1))" for r
    using div_word_of_nat [OF small, of r]
    by (simp add: divider_rate_def f Let_def drop_bit_word_of_nat)
  have gen: "node_rate node parent s =
           (case parent (div_parent_name d) of
              Inl e \<Rightarrow> Inl e
            | Inr r \<Rightarrow>
                Inr (if CLK_DIVIDER_POWER_OF_TWO \<in> div_clk_divider_flags d
                     then drop_bit field r
                     else r div word_of_nat (field + 1)))" for parent
    using rate by (simp add: assms(4) node_rate_def readl_relaxed_def assms(2) split: sum.splits)
  have a: "clk_get_rate (npcm8xx_clk_probe base) s (div_name d) =
           (case clk_get_rate (npcm8xx_clk_probe base) s (div_parent_name d) of
              Inl e \<Rightarrow> Inl e
            | Inr r \<Rightarrow>
                Inr (if CLK_DIVIDER_POWER_OF_TWO \<in> div_clk_divider_flags d
                     then drop_bit field r
                     else r div word_of_nat (field + 1)))"
    unfolding step by (rule gen)
  have b: "unat (word_of_nat (field + 1) :: ulong) = field + 1"
    using small by (simp only: unat_of_nat) simp
  have c: "find (\<lambda>c. clk_name c = div_name d) (npcm8xx_clk_probe base) = Some node"
    using find_clk [OF probe_distinct reg] by (simp add: nm)
  have d: "node_rate node (\<lambda>p. Inr r) s =
                Inr (if CLK_DIVIDER_POWER_OF_TWO \<in> div_clk_divider_flags d
                     then drop_bit field r
                     else r div word_of_nat (field + 1))" for r
    by (simp add: gen)
  have e: "clk_get_rate (npcm8xx_clk_probe base) s (div_name d) \<noteq> Inl RecursionLimit"
    by (rule probe_no_recursion_limit)
  from a b c d e show ?thesis
    by blast
qed

text \<open>
  In the image \<open>divider_scenario\<close> the cpu mux resolves to the reference clock of 25 MHz
  and \<open>pre_clk\<close> to 12.5 MHz. The divider \<open>ahb\<close> (parent \<open>pre_clk\<close>, field 3) resolves to
  12,500,000 / 4 = 3,125,000; the power-of-two divider \<open>th\<close> (parent \<open>cpu\<close>, field 1)
  resolves to 25,000,000 >> 1 = 12,500,000.
\<close>

theorem divider_resolve_witness:
  "clk_get_rate (npcm8xx_clk_probe 0) (frozen divider_scenario) ''pre_clk'' = Inr 12500000
   \<and> clk_get_rate (npcm8xx_clk_probe 0) (frozen divider_scenario) ''ahb'' = Inr 3125000
   \<and> clk_get_rate (npcm8xx_clk_probe 0) (frozen divider_scenario) ''cpu'' = Inr 25000000
   \<and> clk_get_rate (npcm8xx_clk_probe 0) (frozen divider_scenario) ''th'' = Inr 12500000"
proof -
  let ?ahb = "Div_data NPCM8XX_CLKDIV1 26 2 ''ahb'' ''pre_clk''
       {CLK_DIVIDER_READ_ONLY} {CLK_IS_CRITICAL} (Some NPCM8XX_CLK_AHB)"
  let ?th = "Div_data NPCM8XX_THRTL_CNT 0 2 ''th'' ''cpu''
       {CLK_DIVIDER_READ_ONLY, CLK_DIVIDER_POWER_OF_TWO} {} (Some NPCM8XX_CLK_TH)"
  have m: "?ahb \<in> set npcm8xx_divs" "?th \<in> set npcm8xx_divs"
    by (simp_all add: npcm8xx_divs_def)
  have "clk_get_rate (npcm8xx_clk_probe 0) (frozen divider_scenario) (div_name ?ahb)
      = Inr 3125000"
    by (subst divider_resolve [OF m(1) refl refl refl, where s = "frozen divider_scenario"
          and base = 0, THEN conjunct1])
      (simp add: scenario_pre_clk frozen_sel divider_scenario_def offset_defs)
  moreover
  have "clk_get_rate (npcm8xx_clk_probe 0) (frozen divider_scenario) (div_name ?th)
      = Inr 12500000"
    by (subst divider_resolve [OF m(2) refl refl refl, where s = "frozen divider_scenario"
          and base = 0, THEN conjunct1])
      (simp add: scenario_cpu frozen_sel divider_scenario_def offset_defs)
  ultimately show ?thesis
    by (simp add: scenario_pre_clk scenario_cpu)
qed


lemma mux_lookup_None: "mux_lookup tbl raw = None \<longleftrightarrow> raw \<notin> set tbl"
  by (induction tbl) auto

lemma mux_lookup_nth:
  "distinct tbl \<Longrightarrow> i < length tbl \<Longrightarrow> mux_lookup tbl (tbl ! i) = Some i"
proof (induction tbl arbitrary: i)
  case Nil
  then show ?case by simp
next
  case (Cons x tbl)
  then show ?case
    by (cases i) auto
qed

lemma muxes_wellformed:
  "list_all (\<lambda>m. distinct (mux_table m) \<and> length (mux_table m) = length (mux_parent_names m))
     npcm8xx_muxes"
  by (simp add: table_defs)

text \<open>
  Claim C3. For every mux of the table \<open>npcm8xx_muxes\<close>, as the probe registers it on the
  shared CLKSEL register: when the raw selector is not in the mux's lookup table the
  resolution is the error \<open>UnknownMuxSelection\<close> (no rate, no default parent); when the
  raw selector is the table's entry \<open>i\<close>, the resolution is that of the candidate parent
  \<open>i\<close>.
\<close>

theorem mux_resolve:
  assumes "m \<in> set npcm8xx_muxes"
    and "word = regs s (reads s) (base + unat NPCM8XX_CLKSEL)"
    and "raw = drop_bit (unat (mux_shift m)) word AND ucast (mux_mask m)"
  shows "(raw \<notin> set (mux_table m) \<longrightarrow>
            clk_get_rate (npcm8xx_clk_probe base) s (mux_name m) = Inl UnknownMuxSelection)
       \<and> (\<forall>i < length (mux_table m). mux_table m ! i = raw \<longrightarrow>
            clk_get_rate (npcm8xx_clk_probe base) s (mux_name m)
              = clk_get_rate (npcm8xx_clk_probe base) s (mux_parent_names m ! i))"
proof -
  let ?node = "Mux (mux_name m) (mux_parent_names m) (mux_num_parents m) (mux_flags m)
            (base + unat NPCM8XX_CLKSEL) (mux_shift m) (ucast (mux_mask m)) 0 (mux_table m)"
  have "?node \<in> set (npcm8xx_clk_probe base)"
    using assms(1) by (simp add: probe_set)
  from probe_step [OF this, of s]
  have step: "clk_get_rate (npcm8xx_clk_probe base) s (mux_name m)
      = node_rate ?node (clk_get_rate (npcm8xx_clk_probe base) s) s"
    by simp
  have wf: "distinct (mux_table m)" "length (mux_table m) = length (mux_parent_names m)"
    using muxes_wellformed assms(1) by (auto simp: list_all_iff)
  have raw: "mux_field (fst (readl_relaxed (base + unat NPCM8XX_CLKSEL) s)) (mux_shift m)
      (ucast (mux_mask m)) = raw"
    by (simp add: mux_field_def readl_relaxed_def assms(2,3))
  show ?thesis
  proof (intro conjI impI allI)
    assume "raw \<notin> set (mux_table m)"
    then have "mux_lookup (mux_table m) raw = None"
      by (simp add: mux_lookup_None)
    then show "clk_get_rate (npcm8xx_clk_probe base) s (mux_name m) = Inl UnknownMuxSelection"
      unfolding step by (simp add: node_rate_def raw)
  next
    fix i
    assume "i < length (mux_table m)" and "mux_table m ! i = raw"
    then have "mux_lookup (mux_table m) raw = Some i"
      using mux_lookup_nth [OF wf(1), of i] by simp
    then show "clk_get_rate (npcm8xx_clk_probe base) s (mux_name m)
        = clk_get_rate (npcm8xx_clk_probe base) s (mux_parent_names m ! i)"
      unfolding step using \<open>i < length (mux_table m)\<close>
      by (simp add: node_rate_def raw wf(2))
  qed
qed

text \<open>
  The pixel mux (shift 4, table \<open>{0, 2}\<close>): with CLKSEL \<open>0x20\<close> the raw selector is 2,
  entry 1, and the mux resolves as \<open>refclk\<close>; with CLKSEL \<open>0x10\<close> the raw selector is 1,
  which the table does not hold.
\<close>

theorem mux_resolve_witness:
  "clk_get_rate (npcm8xx_clk_probe 0) (frozen (\<lambda>a. 0x20)) ''gfx_pixel''
     = clk_get_rate (npcm8xx_clk_probe 0) (frozen (\<lambda>a. 0x20)) ''refclk''
   \<and> clk_get_rate (npcm8xx_clk_probe 0) (frozen (\<lambda>a. 0x10)) ''gfx_pixel''
     = Inl UnknownMuxSelection"
proof -
  let ?m = "Mux_data 4 (ucast (GENMASK 1 0)) pixcksel_mux_table ''gfx_pixel''
       pixcksel_mux_parents (of_nat (length pixcksel_mux_parents)) {}
       (Some NPCM8XX_CLK_GFX_PIXEL)"
  have m: "?m \<in> set npcm8xx_muxes"
    by (simp add: npcm8xx_muxes_def)
  have "drop_bit 4 (0x20 :: u32) AND 3 = 2" and "drop_bit 4 (0x10 :: u32) AND 3 = 1"
    by simp_all
  then have raw: "pixcksel_mux_table ! 1 = drop_bit 4 (0x20 :: u32) AND 3"
    "drop_bit 4 (0x10 :: u32) AND 3 \<notin> set pixcksel_mux_table"
    by (simp_all add: pixcksel_mux_table_def)
  have "clk_get_rate (npcm8xx_clk_probe 0) (frozen (\<lambda>a. 0x20)) ''gfx_pixel''
     = clk_get_rate (npcm8xx_clk_probe 0) (frozen (\<lambda>a. 0x20)) (pixcksel_mux_parents ! 1)"
    using mux_resolve [OF m refl refl, of "frozen (\<lambda>a. 0x20)" 0, THEN conjunct2, rule_format, of 1]
      raw(1)
    by (simp add: frozen_def GENMASK_def mask_eq_exp_minus_1 pixcksel_mux_table_def)
  moreover have "clk_get_rate (npcm8xx_clk_probe 0) (frozen (\<lambda>a. 0x10)) ''gfx_pixel''
     = Inl UnknownMuxSelection"
    using mux_resolve [OF m refl refl, of "frozen (\<lambda>a. 0x10)" 0, THEN conjunct1] raw(2)
    by (simp add: frozen_def GENMASK_def mask_eq_exp_minus_1)
  ultimately show ?thesis
    by (simp add: pixcksel_mux_parents_def)
qed

section \<open>Fixed-factor dividers\<close>

lemma scenario_pll1:
  "clk_get_rate (npcm8xx_clk_probe 0) (frozen (\<lambda>a. 0x00402201)) ''pll1'' = Inr 800000000"
  "clk_get_rate (npcm8xx_clk_probe 0) (frozen (\<lambda>a. 0x00002101)) ''pll1'' = Inr 0"
proof -
  have p: "Pll_data NPCM8XX_PLLCON1 ''pll1'' ''refclk'' {} None \<in> set npcm8xx_plls"
    by (simp add: npcm8xx_plls_def)
  show "clk_get_rate (npcm8xx_clk_probe 0) (frozen (\<lambda>a. 0x00402201)) ''pll1'' = Inr 800000000"
    using probe_pll [OF p, of 0 "frozen (\<lambda>a. 0x00402201)"]
    by (simp add: pll_recalc_rate_eq frozen_sel bits_def Let_def)
  show "clk_get_rate (npcm8xx_clk_probe 0) (frozen (\<lambda>a. 0x00002101)) ''pll1'' = Inr 0"
    using probe_pll [OF p, of 0 "frozen (\<lambda>a. 0x00002101)"]
    by (simp add: pll_recalc_rate_eq frozen_sel bits_def Let_def)
qed

text \<open>
  Claim C7. For every fixed-factor divider the probe registers, the node resolves to
  \<open>parent * mult / div\<close> computed in 64 bits, and to the error \<open>ZeroParentRate\<close> whenever
  the parent resolves to 0; a failure of the parent is passed on. The 64-bit product
  does not wrap for any parent rate (every registered factor has \<open>mult = 1\<close>): the word
  result is the exact truncated quotient. The resolver finds the node under its name,
  applies this formula to every rate \<open>r\<close> the parent resolves to, and does not run into
  the recursion limit.
\<close>

theorem fixed_factor_resolve:
  assumes "Fixed_Factor name parent_name fl mult dv \<in> set (npcm8xx_clk_probe base)"
  shows "clk_get_rate (npcm8xx_clk_probe base) s name =
           (case clk_get_rate (npcm8xx_clk_probe base) s parent_name of
              Inl e \<Rightarrow> Inl e
            | Inr r \<Rightarrow>
                if r = 0 then Inl ZeroParentRate
                else Inr ((ucast r :: u64) * ucast mult div ucast dv))
         \<and> (\<forall>r :: ulong. unat ((ucast r :: u64) * ucast mult div ucast dv)
                = unat r * unat mult div unat dv)
         \<and> find (\<lambda>c. clk_name c = name) (npcm8xx_clk_probe base)
              = Some (Fixed_Factor name parent_name fl mult dv)
         \<and> (\<forall>r. node_rate (Fixed_Factor name parent_name fl mult dv) (\<lambda>p. Inr r) s =
                (if r = 0 then Inl ZeroParentRate
                 else Inr ((ucast r :: u64) * ucast mult div ucast dv)))
         \<and> clk_get_rate (npcm8xx_clk_probe base) s name \<noteq> Inl RecursionLimit"
proof -
  have md: "mult = 1 \<and> dv = 2"
    using assms by (auto simp: probe_set)
  have ff: "fixed_factor_rate r mult dv =
      (if r = 0 then Inl ZeroParentRate else Inr ((ucast r :: u64) * ucast mult div ucast dv))"
    for r
    using md by (simp add: fixed_factor_rate_def)
  have step: "clk_get_rate (npcm8xx_clk_probe base) s name
      = node_rate (Fixed_Factor name parent_name fl mult dv)
          (clk_get_rate (npcm8xx_clk_probe base) s) s"
    using probe_step [OF assms, of s] by simp
  have a: "clk_get_rate (npcm8xx_clk_probe base) s name =
           (case clk_get_rate (npcm8xx_clk_probe base) s parent_name of
              Inl e \<Rightarrow> Inl e
            | Inr r \<Rightarrow>
                if r = 0 then Inl ZeroParentRate
                else Inr ((ucast r :: u64) * ucast mult div ucast dv))"
    by (simp only: step node_rate_def clk_hw.case ff)
  have b: "unat ((ucast r :: u64) * ucast mult div ucast dv) = unat r * unat mult div unat dv"
    for r :: ulong
    using md by (simp add: unat_div)
  have c: "find (\<lambda>c. clk_name c = name) (npcm8xx_clk_probe base)
      = Some (Fixed_Factor name parent_name fl mult dv)"
    using find_clk [OF probe_distinct assms] by simp
  have d: "node_rate (Fixed_Factor name parent_name fl mult dv) (\<lambda>p. Inr r) s =
                (if r = 0 then Inl ZeroParentRate
                 else Inr ((ucast r :: u64) * ucast mult div ucast dv))" for r
    by (simp only: node_rate_def clk_hw.case sum.case ff)
  have e: "clk_get_rate (npcm8xx_clk_probe base) s name \<noteq> Inl RecursionLimit"
    by (rule probe_no_recursion_limit)
  from a b c d e show ?thesis
    by blast
qed

text \<open>
  The node \<open>pll1_div2\<close> (parent \<open>pll1\<close>, factors 1 and 2). With the control word
  \<open>0x00402201\<close> in every register \<open>pll1\<close> resolves to 800 MHz and \<open>pll1_div2\<close> to 400 MHz.
  With \<open>0x00002101\<close> (FBDV 0) \<open>pll1\<close> resolves to 0 and \<open>pll1_div2\<close> fails with
  \<open>ZeroParentRate\<close>.
\<close>

theorem fixed_factor_resolve_witness:
  "clk_get_rate (npcm8xx_clk_probe 0) (frozen (\<lambda>a. 0x00402201)) ''pll1'' = Inr 800000000
   \<and> clk_get_rate (npcm8xx_clk_probe 0) (frozen (\<lambda>a. 0x00402201)) ''pll1_div2'' = Inr 400000000
   \<and> clk_get_rate (npcm8xx_clk_probe 0) (frozen (\<lambda>a. 0x00002101)) ''pll1'' = Inr 0
   \<and> clk_get_rate (npcm8xx_clk_probe 0) (frozen (\<lambda>a. 0x00002101)) ''pll1_div2''
       = Inl ZeroParentRate"
proof -
  have n: "Fixed_Factor ''pll1_div2'' ''pll1'' {} 1 2 \<in> set (npcm8xx_clk_probe 0)"
    by (simp add: probe_set)
  have "clk_get_rate (npcm8xx_clk_probe 0) (frozen (\<lambda>a. 0x00402201)) ''pll1_div2''
      = Inr 400000000"
    by (subst fixed_factor_resolve [OF n, THEN conjunct1]) (simp add: scenario_pll1)
  moreover
  have "clk_get_rate (npcm8xx_clk_probe 0) (frozen (\<lambda>a. 0x00002101)) ''pll1_div2''
      = Inl ZeroParentRate"
    by (subst fixed_factor_resolve [OF n, THEN conjunct1]) (simp add: scenario_pll1)
  ultimately show ?thesis
    by (simp add: scenario_pll1)
qed

section \<open>The reference scenario\<close>

text \<open>
  Claim C8. The reference clock is fixed at 25,000,000 Hz. When the control word of PLL0
  (register PLLCON0) encodes INDV = 1, FBDV = 64, OTDV1 = 2 and OTDV2 = 1, whatever its
  other bits are, PLL0 resolves to exactly 800,000,000 Hz, through the resolver and by
  the rate function called with the reference rate.
\<close>

theorem pll0_reference_scenario:
  assumes "val = regs s (reads s) (base + unat NPCM8XX_PLLCON0)"
    and "bits 5 0 val = 1" and "bits 27 16 val = 64"
    and "bits 10 8 val = 2" and "bits 15 13 val = 1"
  shows "clk_get_rate (npcm8xx_clk_probe base) s ''refclk'' = Inr 25000000
       \<and> clk_get_rate (npcm8xx_clk_probe base) s ''pll0'' = Inr 800000000
       \<and> fst (npcm8xx_clk_pll_recalc_rate \<lparr>pllcon = base + unat NPCM8XX_PLLCON0, flags = 0\<rparr>
             NPCM8XX_REF_CLK s) = Inr 800000000"
proof -
  let ?tbl = "npcm8xx_clk_probe base"
  let ?pll = "\<lparr>pllcon = base + unat NPCM8XX_PLLCON0, flags = 0\<rparr>"
  have "Fixed_Rate ''refclk'' None {} NPCM8XX_REF_CLK \<in> set ?tbl"
    by (simp add: probe_set)
  from probe_step [OF this, of s]
  have ref: "clk_get_rate ?tbl s ''refclk'' = Inr 25000000"
    by (simp add: node_rate_def NPCM8XX_REF_CLK_def)
  have pll: "fst (npcm8xx_clk_pll_recalc_rate ?pll 25000000 s) = Inr 800000000"
    using assms by (simp add: pll_recalc_rate_eq Let_def)
  have "Pll ''pll0'' ''refclk'' {} ?pll \<in> set ?tbl"
    by (simp add: probe_set npcm8xx_plls_def)
  from probe_step [OF this, of s]
  have "clk_get_rate ?tbl s ''pll0'' = Inr 800000000"
    by (simp add: node_rate_def ref pll)
  with ref pll show ?thesis
    by (simp add: NPCM8XX_REF_CLK_def)
qed

text \<open>The control word \<open>0x00402201\<close> encodes these four field values.\<close>

theorem pll0_reference_scenario_witness:
  "clk_get_rate (npcm8xx_clk_probe 0) (frozen (\<lambda>a. 0x00402201)) ''pll0'' = Inr 800000000"
  using pll0_reference_scenario [of "0x00402201" "frozen (\<lambda>a. 0x00402201)" 0]
  by (simp add: frozen_def bits_def)

section \<open>Parent references and divider flags\<close>

text \<open>
  Claim C5 as stated fails: the cpu mux (node 34 in registration order) has the candidate
  parent \<open>sysbypck\<close> and the mc_phy mux (node 39) the candidate parent \<open>mcbypck\<close>, and the
  probe registers no clock of either name.
\<close>

theorem bypass_parents_counterexample:
  "clk_name (npcm8xx_clk_probe 0 ! 34) = ''cpu''
   \<and> ''sysbypck'' \<in> set (clk_parents (npcm8xx_clk_probe 0 ! 34))
   \<and> ''sysbypck'' \<notin> set (map clk_name (npcm8xx_clk_probe 0))
   \<and> clk_name (npcm8xx_clk_probe 0 ! 39) = ''mc_phy''
   \<and> ''mcbypck'' \<in> set (clk_parents (npcm8xx_clk_probe 0 ! 39))
   \<and> ''mcbypck'' \<notin> set (map clk_name (npcm8xx_clk_probe 0))"
  unfolding probe_names
  by (simp add: npcm8xx_clk_probe_def register_defs table_defs)

lemma probe_parents:
  "list_all (\<lambda>node. list_all (\<lambda>p.
       p \<in> set (map clk_name (npcm8xx_clk_probe base))
       \<or> clk_name node = ''cpu'' \<and> p = ''sysbypck''
       \<or> clk_name node = ''mc_phy'' \<and> p = ''mcbypck'') (clk_parents node))
     (npcm8xx_clk_probe base)"
  unfolding probe_names
  by (simp add: npcm8xx_clk_probe_def register_defs table_defs)

lemma probe_sources:
  "list_all (\<lambda>node. clk_parents node = [] \<longleftrightarrow> is_fixed_rate node) (npcm8xx_clk_probe base)"
  by (simp add: npcm8xx_clk_probe_def register_defs table_defs)

text \<open>
  Claim C5, as amended. For every node the probe registers, every parent reference names
  another node (never the node itself), and that node is registered by the probe, except
  for the candidate \<open>sysbypck\<close> of the cpu mux and the candidate \<open>mcbypck\<close> of the mc_phy
  mux; a node has no parent exactly when it is a fixed-rate source.
\<close>

theorem parents_registered:
  assumes "node \<in> set (npcm8xx_clk_probe base)"
  shows "(\<forall>p \<in> set (clk_parents node).
            p \<noteq> clk_name node
            \<and> (p \<in> set (map clk_name (npcm8xx_clk_probe base))
               \<or> clk_name node = ''cpu'' \<and> p = ''sysbypck''
               \<or> clk_name node = ''mc_phy'' \<and> p = ''mcbypck''))
       \<and> (clk_parents node = [] \<longleftrightarrow> is_fixed_rate node)"
proof -
  have "p \<noteq> clk_name node" if "p \<in> set (clk_parents node)" for p
  proof -
    have "clk_rank p < clk_rank (clk_name node)"
      using probe_ranked [of base] assms that by (auto simp: ranked_def list_all_iff)
    then show ?thesis
      by auto
  qed
  then show ?thesis
    using probe_parents [of base] probe_sources [of base] assms
    by (auto simp: list_all_iff)
qed

text \<open>Node 36, the mux \<open>sd_mux\<close>, is registered; all its candidates are registered.\<close>

theorem parents_registered_witness:
  "set (clk_parents (npcm8xx_clk_probe 0 ! 36)) \<subseteq> set (map clk_name (npcm8xx_clk_probe 0))
   \<and> clk_name (npcm8xx_clk_probe 0 ! 36) = ''sd_mux''"
proof -
  have n: "npcm8xx_clk_probe 0 ! 36 \<in> set (npcm8xx_clk_probe 0)"
    by (simp add: probe_length)
  have nm: "clk_name (npcm8xx_clk_probe 0 ! 36) = ''sd_mux''"
    by (simp add: npcm8xx_clk_probe_def register_defs table_defs)
  show ?thesis
    using parents_registered [OF n] nm by auto
qed

text \<open>
  Claim C6 at its failing input. The dividers of \<open>npcm8xx_divs\<close> without the read-only
  flag are exactly the one named \<open>spi3\<close>, whose \<open>clk_divider_flags\<close> are 0; the probe
  registers it so. Every other divider has the flag.
\<close>

theorem spi3_divider_not_read_only:
  "map div_name (filter (\<lambda>d. CLK_DIVIDER_READ_ONLY \<notin> div_clk_divider_flags d) npcm8xx_divs)
     = [''spi3'']
   \<and> Divider ''spi3'' ''ahb'' {} (unat NPCM8XX_CLKDIV1) 6 5 {} \<in> set (npcm8xx_clk_probe 0)"
  by (simp add: probe_set) (simp add: npcm8xx_divs_def)

end
